theory Spec2Isabelle
  imports Main
begin

section \<open>JavaScript strings, truthiness and plain objects\<close>

text \<open>
  Strings are lists of code units. Header names and values reach the program decoded as
  Latin-1, so one \<^typ>\<open>char\<close> is one code unit.

  \<open>String.prototype.toLowerCase\<close> on such strings: the letters A to Z are mapped to a to
  z, and the capital letters of the upper half (0xC0 to 0xDE, the multiplication sign
  0xD7 left out) to the small ones 0x20 above them. Every other code unit stays.
\<close>

definition upper_letters :: string where
  "upper_letters = ''ABCDEFGHIJKLMNOPQRSTUVWXYZ''"

definition lower_letters :: string where
  "lower_letters = ''abcdefghijklmnopqrstuvwxyz''"

definition toLowerCase_char :: "char \<Rightarrow> char" where
  "toLowerCase_char c =
     (case map_of (zip upper_letters lower_letters) c of
        Some d \<Rightarrow> d
      | None \<Rightarrow>
          (if (192::nat) \<le> of_char c \<and> of_char c \<le> (222::nat) \<and> of_char c \<noteq> (215::nat)
           then char_of (of_char c + (32::nat)) else c))"

definition toLowerCase :: "string \<Rightarrow> string" where
  "toLowerCase s = map toLowerCase_char s"

text \<open>\<open>String.prototype.trim\<close>: the white space and line terminators below U+0100.\<close>

definition is_white_space :: "char \<Rightarrow> bool" where
  "is_white_space c =
     (c \<in> set [CHR 0x09, CHR 0x0A, CHR 0x0B, CHR 0x0C, CHR 0x0D, CHR 0x20, CHR 0xA0])"

definition js_trim :: "string \<Rightarrow> string" where
  "js_trim s = rev (dropWhile is_white_space (rev (dropWhile is_white_space s)))"

text \<open>\<open>s.split(sep)\<close> for a one-character separator: never the empty array.\<close>

fun js_split :: "char \<Rightarrow> string \<Rightarrow> string list" where
  "js_split sep [] = [[]]"
| "js_split sep (c # cs) =
     (if c = sep then [] # js_split sep cs
      else (case js_split sep cs of [] \<Rightarrow> [[c]] | w # ws \<Rightarrow> (c # w) # ws))"

text \<open>
  A value that is a string or \<open>undefined\<close> is a \<^typ>\<open>string option\<close>. It is truthy
  when it is a non-empty string; \<open>a || b\<close> is \<open>a\<close> when \<open>a\<close> is truthy and \<open>b\<close> otherwise.
\<close>

definition truthy :: "string option \<Rightarrow> bool" where
  "truthy v = (case v of None \<Rightarrow> False | Some s \<Rightarrow> s \<noteq> [])"

definition js_or :: "string option \<Rightarrow> string option \<Rightarrow> string option" where
  "js_or a b = (if truthy a then a else b)"

text \<open>
  A plain object is the list of its own enumerable entries in the order
  \<open>Object.entries\<close> lists them. Reading a key, assigning to a key (an existing key keeps
  its place, a new key goes last) and \<open>delete\<close>. Keys are ordinary property
  names: assignment to an index-like key or to \<open>__proto__\<close> is outside this model.
\<close>

type_synonym 'v js_object = "(string \<times> 'v) list"

definition obj_get :: "'v js_object \<Rightarrow> string \<Rightarrow> 'v option" where
  "obj_get obj k = map_of obj k"

fun obj_set :: "string \<Rightarrow> 'v \<Rightarrow> 'v js_object \<Rightarrow> 'v js_object" where
  "obj_set k v [] = [(k, v)]"
| "obj_set k v ((k', v') # es) =
     (if k' = k then (k', v) # es else (k', v') # obj_set k v es)"

definition obj_delete :: "string \<Rightarrow> 'v js_object \<Rightarrow> 'v js_object" where
  "obj_delete k obj = filter (\<lambda>(k', v'). k' \<noteq> k) obj"

definition obj_keys :: "'v js_object \<Rightarrow> string list" where
  "obj_keys obj = map fst obj"

section \<open>Header filter\<close>

definition BLOCKED_HEADERS :: "string list" where
  "BLOCKED_HEADERS =
     [''connection'', ''keep-alive'', ''transfer-encoding'', ''upgrade'',
      ''proxy-connection'', ''proxy-authenticate'', ''proxy-authorization'',
      ''te'', ''trailer'']"

definition includes_js :: "'a list \<Rightarrow> 'a \<Rightarrow> bool" where
  "includes_js xs x = (x \<in> set xs)"

text \<open>
  \<open>filterHeaders\<close>: the loop over \<open>Object.entries(headers)\<close>, with \<open>filtered\<close> as the
  accumulator; \<open>continue\<close> leaves the accumulator as it is.
\<close>

definition filterHeaders_step :: "string \<times> 'v \<Rightarrow> 'v js_object \<Rightarrow> 'v js_object" where
  "filterHeaders_step entry filtered =
     (case entry of (key, val) \<Rightarrow>
        (let lowerKey = toLowerCase key in
         if includes_js BLOCKED_HEADERS lowerKey then filtered
         else obj_set key val filtered))"

definition filterHeaders :: "'v js_object \<Rightarrow> 'v js_object" where
  "filterHeaders headers = fold filterHeaders_step headers []"

text \<open>The property the header filter is compared with: keep the entries whose name,
  lower-cased, is not on the denylist.\<close>

definition safe_header :: "string \<times> 'v \<Rightarrow> bool" where
  "safe_header entry = (toLowerCase (fst entry) \<notin> set BLOCKED_HEADERS)"

section \<open>Precomputed error bodies\<close>

text \<open>
  \<open>JSON.stringify\<close> of an object whose values are strings: no white space, members
  in the order of the object, each string quoted and escaped.
\<close>

definition hex_digit :: "nat \<Rightarrow> char" where
  "hex_digit n = ''0123456789abcdef'' ! (n mod 16)"

definition json_escape :: "char \<Rightarrow> string" where
  "json_escape c =
     (if c = CHR 0x22 then [CHR 0x5C, CHR 0x22]
      else if c = CHR 0x5C then [CHR 0x5C, CHR 0x5C]
      else if c = CHR 0x08 then [CHR 0x5C, CHR ''b'']
      else if c = CHR 0x09 then [CHR 0x5C, CHR ''t'']
      else if c = CHR 0x0A then [CHR 0x5C, CHR ''n'']
      else if c = CHR 0x0C then [CHR 0x5C, CHR ''f'']
      else if c = CHR 0x0D then [CHR 0x5C, CHR ''r'']
      else if (of_char c :: nat) < 32
        then [CHR 0x5C, CHR ''u'', CHR ''0'', CHR ''0'',
              hex_digit (of_char c div 16), hex_digit (of_char c mod 16)]
      else [c])"

definition json_quote :: "string \<Rightarrow> string" where
  "json_quote s = [CHR 0x22] @ concat (map json_escape s) @ [CHR 0x22]"

fun js_join :: "string \<Rightarrow> string list \<Rightarrow> string" where
  "js_join sep [] = []"
| "js_join sep [x] = x"
| "js_join sep (x # y # ys) = x @ sep @ js_join sep (y # ys)"

definition JSON_stringify :: "string js_object \<Rightarrow> string" where
  "JSON_stringify obj =
     ''{'' @ js_join '','' (map (\<lambda>(k, v). json_quote k @ '':'' @ json_quote v) obj) @ ''}''"

definition ERROR_TIMEOUT :: string where
  "ERROR_TIMEOUT = JSON_stringify
     [(''error'', ''Gateway Timeout''),
      (''message'', ''Target server took too long to respond'')]"

definition ERROR_PROXY :: string where
  "ERROR_PROXY = JSON_stringify
     [(''error'', ''Proxy Error''),
      (''message'', ''An error occurred during proxy request'')]"

section \<open>Forwarding engine\<close>

datatype js_error = Error string | TypeError string | ERR_HTTP_HEADERS_SENT

datatype agent = httpAgent | httpsAgent

datatype protocol = http | https

text \<open>\<open>targetUrl.port || (isHttps ? 443 : 80)\<close>: the URL's port string when it is not
  empty, a number otherwise.\<close>

datatype port_value = PortString string | PortNumber nat

record target_descriptor =
  tgt_hostname :: string
  tgt_port :: port_value
  tgt_host :: string
  tgt_isHttps :: bool

text \<open>The inbound request: \<open>url\<close>, \<open>method\<close>, \<open>headers\<close>, the body it streams, and
  \<open>socket.remoteAddress\<close> (\<open>connection\<close> is the same socket).\<close>

record request =
  req_url :: string
  req_method :: string
  req_headers :: "string js_object"
  req_body :: string
  req_remoteAddress :: "string option"

record request_options =
  opt_hostname :: string
  opt_port :: port_value
  opt_path :: string
  opt_method :: string
  opt_headers :: "string js_object"
  opt_agent :: agent

text \<open>\<open>forwardRequest\<close>, first part: the options of the outbound request.\<close>

definition forwardRequest_options ::
  "request \<Rightarrow> target_descriptor \<Rightarrow> bool \<Rightarrow> agent \<Rightarrow> request_options" where
  "forwardRequest_options clientReq targetParsed changeOrigin agent =
     (let options = \<lparr>opt_hostname = tgt_hostname targetParsed,
                     opt_port = tgt_port targetParsed,
                     opt_path = req_url clientReq,
                     opt_method = req_method clientReq,
                     opt_headers = filterHeaders (req_headers clientReq),
                     opt_agent = agent\<rparr>
      in if changeOrigin
         then options\<lparr>opt_headers := obj_set ''host'' (tgt_host targetParsed) (opt_headers options)\<rparr>
         else options\<lparr>opt_headers := obj_delete ''host'' (opt_headers options)\<rparr>)"

text \<open>The response to the client: whether its head has been sent, the status and
  headers of the head, the chunks of body written, and whether it has ended.\<close>

record client_response =
  res_headersSent :: bool
  res_statusCode :: nat
  res_headers :: "string js_object"
  res_body :: "string list"
  res_finished :: bool

definition writeHead ::
  "nat \<Rightarrow> string js_object \<Rightarrow> client_response \<Rightarrow> js_error + client_response" where
  "writeHead code hdrs res =
     (if res_headersSent res then Inl ERR_HTTP_HEADERS_SENT
      else Inr (res\<lparr>res_headersSent := True, res_statusCode := code, res_headers := hdrs\<rparr>))"

definition res_end :: "string \<Rightarrow> client_response \<Rightarrow> client_response" where
  "res_end chunk res =
     (if res_finished res then res
      else res\<lparr>res_headersSent := True, res_body := res_body res @ [chunk],
               res_finished := True\<rparr>)"

record proxy_request =
  pr_options :: request_options
  pr_protocol :: protocol
  pr_noDelay :: bool
  pr_timeout :: nat
  pr_destroyed :: bool
  pr_body :: string

record exchange =
  ex_proxyReq :: proxy_request
  ex_clientRes :: client_response
  ex_console :: "string list"

text \<open>\<open>forwardRequest\<close>: the outbound request it creates (options, protocol,
  \<open>setNoDelay(true)\<close>, \<open>setTimeout(30000, ...)\<close>, the piped body) next to the client
  response it will write to.\<close>

definition forwardRequest ::
  "request \<Rightarrow> client_response \<Rightarrow> target_descriptor \<Rightarrow> bool \<Rightarrow> agent \<Rightarrow> exchange" where
  "forwardRequest clientReq clientRes targetParsed changeOrigin agent =
     \<lparr>ex_proxyReq =
        \<lparr>pr_options = forwardRequest_options clientReq targetParsed changeOrigin agent,
         pr_protocol = (if tgt_isHttps targetParsed then https else http),
         pr_noDelay = True,
         pr_timeout = 30000,
         pr_destroyed = False,
         pr_body = req_body clientReq\<rparr>,
      ex_clientRes = clientRes,
      ex_console = []\<rparr>"

text \<open>The callbacks \<open>forwardRequest\<close> registers: the upstream's response, the timeout
  and the \<open>error\<close> event.\<close>

definition on_response :: "nat \<Rightarrow> string js_object \<Rightarrow> string \<Rightarrow> exchange \<Rightarrow> js_error + exchange" where
  "on_response statusCode hdrs payload ex =
     (case writeHead statusCode hdrs (ex_clientRes ex) of
        Inl e \<Rightarrow> Inl e
      | Inr r \<Rightarrow> Inr (ex\<lparr>ex_clientRes := res_end payload r\<rparr>))"

definition on_timeout :: "exchange \<Rightarrow> js_error + exchange" where
  "on_timeout ex =
     (let ex1 = ex\<lparr>ex_console := ex_console ex @ [''Proxy Error: Request timeout''],
                   ex_proxyReq := (ex_proxyReq ex)\<lparr>pr_destroyed := True\<rparr>\<rparr>
      in if \<not> res_headersSent (ex_clientRes ex1)
         then (case writeHead 504 [(''Content-Type'', ''application/json'')] (ex_clientRes ex1) of
                 Inl e \<Rightarrow> Inl e
               | Inr r \<Rightarrow> Inr (ex1\<lparr>ex_clientRes := res_end ERROR_TIMEOUT r\<rparr>))
         else Inr ex1)"

definition on_error :: "string \<Rightarrow> exchange \<Rightarrow> js_error + exchange" where
  "on_error message ex =
     (let ex1 = ex\<lparr>ex_console := ex_console ex @ [''Proxy Error: '' @ message]\<rparr>
      in if \<not> res_headersSent (ex_clientRes ex1)
         then (case writeHead 500 [(''Content-Type'', ''application/json'')] (ex_clientRes ex1) of
                 Inl e \<Rightarrow> Inl e
               | Inr r \<Rightarrow> Inr (ex1\<lparr>ex_clientRes := res_end ERROR_PROXY r\<rparr>))
         else Inr ex1)"

text \<open>The timer of \<open>setTimeout\<close>: the timeout callback runs once the upstream has been
  silent for the registered number of milliseconds.\<close>

definition upstream_silent :: "nat \<Rightarrow> exchange \<Rightarrow> js_error + exchange" where
  "upstream_silent ms ex =
     (if pr_timeout (ex_proxyReq ex) \<le> ms then on_timeout ex else Inr ex)"

section \<open>Logger: client address\<close>

text \<open>\<open>req.headers[name]\<close> as a string, for use after its truthiness test.\<close>

definition js_string :: "string option \<Rightarrow> string" where
  "js_string v = (case v of None \<Rightarrow> [] | Some s \<Rightarrow> s)"

text \<open>\<open>value.split(',')[0].trim()\<close>; the split of a string is never empty.\<close>

definition first_entry :: "string \<Rightarrow> string" where
  "first_entry v = (case js_split (CHR '','') v of [] \<Rightarrow> [] | ip # rest \<Rightarrow> js_trim ip)"

definition getClientIP :: "request \<Rightarrow> string" where
  "getClientIP req =
     (let hs = req_headers req in
      if truthy (obj_get hs ''cf-connecting-ip'') then js_string (obj_get hs ''cf-connecting-ip'')
      else if truthy (obj_get hs ''x-forwarded-for'')
        then first_entry (js_string (obj_get hs ''x-forwarded-for''))
      else if truthy (obj_get hs ''x-real-ip'') then js_string (obj_get hs ''x-real-ip'')
      else js_string (js_or (req_remoteAddress req) (Some ''unknown'')))"

section \<open>Attack detector\<close>

text \<open>
  The monitored path: a string compared for equality, or a regular expression. A regular
  expression is taken as what its \<open>test\<close> computes: from the \<open>lastIndex\<close> the expression
  holds and the string, the result and the \<open>lastIndex\<close> it holds afterwards. (A pattern
  without the g and y flags gives back the \<open>lastIndex\<close> it was given.)
\<close>

datatype path_matcher = ExactPath string | RegExpPath "nat \<Rightarrow> string \<Rightarrow> bool \<times> nat"

text \<open>
  What a callback can throw, as far as the \<open>catch\<close> block looks at it: the block reads
  \<open>err.message\<close>. For an object or a primitive the read gives the message or
  \<open>undefined\<close>; for \<open>null\<close> and \<open>undefined\<close> the read itself raises a \<open>TypeError\<close>.
\<close>

datatype js_thrown = ThrownValue "string option" | ThrownNull | ThrownUndefined

record trigger_event =
  ev_ip :: "string option"
  ev_hits :: nat
  ev_path :: "string option"
  ev_timestamp :: int
  ev_userAgent :: string

text \<open>A callback returns (\<open>None\<close>) or throws.\<close>

type_synonym callback = "trigger_event \<Rightarrow> js_thrown option"

record detector_options =
  do_path :: "path_matcher option"
  do_statusCode :: "int option"
  do_threshold :: "int option"
  do_timeWindow :: "int option"
  do_onTrigger :: "callback option"

record detector_config =
  cfg_path :: path_matcher
  cfg_statusCode :: int
  cfg_threshold :: int
  cfg_timeWindow :: int
  cfg_onTrigger :: callback

definition path_falsy :: "path_matcher \<Rightarrow> bool" where
  "path_falsy p = (case p of ExactPath s \<Rightarrow> s = [] | RegExpPath t \<Rightarrow> False)"

text \<open>\<open>createAttackDetector\<close>, the validation of its options; \<open>timeWindow\<close> defaults
  to 1000.\<close>

definition createAttackDetector :: "detector_options \<Rightarrow> js_error + detector_config" where
  "createAttackDetector options =
     (case do_path options of
        None \<Rightarrow> Inl (Error ''path is required'')
      | Some targetPath \<Rightarrow>
          if path_falsy targetPath then Inl (Error ''path is required'')
          else (case do_statusCode options of
             None \<Rightarrow> Inl (Error ''statusCode is required'')
           | Some statusCode \<Rightarrow>
               if statusCode = 0 then Inl (Error ''statusCode is required'')
               else (case do_threshold options of
                  None \<Rightarrow> Inl (Error ''threshold must be a positive number'')
                | Some threshold \<Rightarrow>
                    if threshold \<le> 0 then Inl (Error ''threshold must be a positive number'')
                    else (case do_onTrigger options of
                       None \<Rightarrow> Inl (Error ''onTrigger must be a function'')
                     | Some onTrigger \<Rightarrow>
                         Inr \<lparr>cfg_path = targetPath,
                              cfg_statusCode = statusCode,
                              cfg_threshold = threshold,
                              cfg_timeWindow =
                                (case do_timeWindow options of None \<Rightarrow> 1000 | Some w \<Rightarrow> w),
                              cfg_onTrigger = onTrigger\<rparr>))))"

text \<open>\<open>hitTracker\<close>: a \<open>Map\<close> from the resolved address (a string or \<open>undefined\<close>) to
  its array of timestamps.\<close>

type_synonym hit_tracker = "string option \<Rightarrow> int list option"

text \<open>
  \<open>url.parse(req.url).pathname\<close> is the platform's. It is a parameter of the model: for a
  request target it gives the pathname, a string or \<open>null\<close> (\<open>None\<close>), or the exception
  that \<open>url.parse\<close> throws.
\<close>

type_synonym pathname_parser = "string \<Rightarrow> js_error + string option"

text \<open>\<open>test\<close> converts its argument to a string.\<close>

definition path_string :: "string option \<Rightarrow> string" where
  "path_string requestPath = (case requestPath of None \<Rightarrow> ''null'' | Some p \<Rightarrow> p)"

text \<open>\<open>matchPath\<close>: the result, and the \<open>lastIndex\<close> of the expression afterwards.\<close>

definition matchPath :: "detector_config \<Rightarrow> nat \<Rightarrow> string option \<Rightarrow> bool \<times> nat" where
  "matchPath cfg lastIndex requestPath =
     (case cfg_path cfg of
        RegExpPath test \<Rightarrow> test lastIndex (path_string requestPath)
      | ExactPath targetPath \<Rightarrow> (requestPath = Some targetPath, lastIndex))"

definition cleanOldHits :: "detector_config \<Rightarrow> int list \<Rightarrow> int \<Rightarrow> int list" where
  "cleanOldHits cfg timestamps now = filter (\<lambda>ts. now - ts < cfg_timeWindow cfg) timestamps"

text \<open>The address the detector files a request under.\<close>

definition detector_ip :: "request \<Rightarrow> string option" where
  "detector_ip req =
     js_or (map_option first_entry (obj_get (req_headers req) ''x-forwarded-for''))
       (js_or (obj_get (req_headers req) ''x-real-ip'')
          (js_or (req_remoteAddress req) (req_remoteAddress req)))"

text \<open>\<open>err.message\<close> in the \<open>catch\<close> block, and how \<open>console.error\<close> prints it.\<close>

definition error_message :: "js_thrown \<Rightarrow> js_error + string option" where
  "error_message err =
     (case err of
        ThrownValue m \<Rightarrow> Inr m
      | ThrownNull \<Rightarrow> Inl (TypeError ''Cannot read properties of null'')
      | ThrownUndefined \<Rightarrow> Inl (TypeError ''Cannot read properties of undefined''))"

definition printed :: "string option \<Rightarrow> string" where
  "printed v = (case v of None \<Rightarrow> ''undefined'' | Some s \<Rightarrow> s)"

text \<open>
  What one call of the overridden \<open>res.end\<close> leaves behind: the tracker, the calls of
  \<open>onTrigger\<close>, the lines printed, whether the original \<open>end\<close> ran, and the exception
  that left the override, if any. \<open>eo_next\<close> counts the calls of \<open>next\<close> the middleware
  made for the request. An exception of \<open>url.parse\<close> leaves the middleware itself, before
  \<open>next\<close> is called and before \<open>res.end\<close> is overridden.
\<close>

record end_outcome =
  eo_tracker :: hit_tracker
  eo_triggered :: "trigger_event list"
  eo_console :: "string list"
  eo_originalEnd :: bool
  eo_thrown :: "js_error option"
  eo_next :: nat

definition userAgent_of :: "request \<Rightarrow> string" where
  "userAgent_of req = js_string (js_or (obj_get (req_headers req) ''user-agent'') (Some ''unknown''))"

text \<open>\<open>hitTracker.get(ip) || []\<close>.\<close>

definition stored_hits :: "hit_tracker \<Rightarrow> string option \<Rightarrow> int list" where
  "stored_hits hitTracker ip = (case hitTracker ip of None \<Rightarrow> [] | Some stored \<Rightarrow> stored)"

text \<open>The body of \<open>if (statusCodeSent === statusCode)\<close> in the overridden \<open>res.end\<close>,
  followed by the call of the original \<open>end\<close>.\<close>

definition record_hit ::
  "detector_config \<Rightarrow> hit_tracker \<Rightarrow> request \<Rightarrow> string option \<Rightarrow> string option \<Rightarrow> int
     \<Rightarrow> end_outcome" where
  "record_hit cfg hitTracker req ip requestPath now =
     (let hits0 = stored_hits hitTracker ip;
          hits1 = cleanOldHits cfg hits0 now;
          hits = hits1 @ [now];
          tracker1 = hitTracker(ip \<mapsto> hits)
      in if cfg_threshold cfg \<le> int (length hits)
         then (let ev = \<lparr>ev_ip = ip, ev_hits = length hits, ev_path = requestPath,
                          ev_timestamp = now, ev_userAgent = userAgent_of req\<rparr>
               in case cfg_onTrigger cfg ev of
                    None \<Rightarrow>
                      \<lparr>eo_tracker = tracker1(ip := None), eo_triggered = [ev], eo_console = [],
                       eo_originalEnd = True, eo_thrown = None, eo_next = 1\<rparr>
                  | Some err \<Rightarrow>
                      (case error_message err of
                         Inr m \<Rightarrow>
                           \<lparr>eo_tracker = tracker1(ip := None), eo_triggered = [ev],
                            eo_console =
                              [''Attack Detector: Error in onTrigger callback: '' @ printed m],
                            eo_originalEnd = True, eo_thrown = None, eo_next = 1\<rparr>
                       | Inl e \<Rightarrow>
                           \<lparr>eo_tracker = tracker1, eo_triggered = [ev], eo_console = [],
                            eo_originalEnd = False, eo_thrown = Some e, eo_next = 1\<rparr>))
         else \<lparr>eo_tracker = tracker1, eo_triggered = [], eo_console = [],
               eo_originalEnd = True, eo_thrown = None, eo_next = 1\<rparr>)"

text \<open>
  What the later stages do to the response before it ends: the code they pass to
  \<open>writeHead\<close>, if they call it, and \<open>res.statusCode\<close> when \<open>end\<close> is called.
\<close>

record response_ops =
  rs_writeHead :: "int option"
  rs_statusCode :: int

definition statusCodeSent :: "response_ops \<Rightarrow> int" where
  "statusCodeSent rs =
     (case rs_writeHead rs of
        None \<Rightarrow> rs_statusCode rs
      | Some code \<Rightarrow> if code = 0 then rs_statusCode rs else code)"

text \<open>
  The middleware for one request whose response ends at time \<open>now\<close>, given the tracker
  and the \<open>lastIndex\<close> of the monitored expression. A request whose path does not match
  goes to \<open>next\<close> with \<open>res.end\<close> untouched; otherwise \<open>res.end\<close> is overridden, \<open>next\<close> is
  called, and the override runs when the response ends.
\<close>

definition attackDetector ::
  "pathname_parser \<Rightarrow> detector_config \<Rightarrow> hit_tracker \<Rightarrow> nat \<Rightarrow> request \<Rightarrow> response_ops \<Rightarrow> int
     \<Rightarrow> end_outcome" where
  "attackDetector pathname cfg hitTracker lastIndex req rs now =
     (case pathname (req_url req) of
        Inl e \<Rightarrow>
          \<lparr>eo_tracker = hitTracker, eo_triggered = [], eo_console = [],
           eo_originalEnd = False, eo_thrown = Some e, eo_next = 0\<rparr>
      | Inr requestPath \<Rightarrow>
          if \<not> fst (matchPath cfg lastIndex requestPath)
          then \<lparr>eo_tracker = hitTracker, eo_triggered = [], eo_console = [],
                eo_originalEnd = True, eo_thrown = None, eo_next = 1\<rparr>
          else (let ip = detector_ip req in
                if statusCodeSent rs = cfg_statusCode cfg
                then record_hit cfg hitTracker req ip requestPath now
                else \<lparr>eo_tracker = hitTracker, eo_triggered = [], eo_console = [],
                      eo_originalEnd = True, eo_thrown = None, eo_next = 1\<rparr>))"

text \<open>The \<open>lastIndex\<close> of the monitored expression after the middleware has run for a
  request.\<close>

definition lastIndex_after :: "pathname_parser \<Rightarrow> detector_config \<Rightarrow> nat \<Rightarrow> request \<Rightarrow> nat" where
  "lastIndex_after pathname cfg lastIndex req =
     (case pathname (req_url req) of
        Inl e \<Rightarrow> lastIndex
      | Inr requestPath \<Rightarrow> snd (matchPath cfg lastIndex requestPath))"

text \<open>Requests served one after the other by the same detector: the tracker and the
  \<open>lastIndex\<close> are the state that passes from one to the next. An exception that leaves
  the override reaches the caller of \<open>end\<close>; the tracker stays as the override left it.\<close>

record served =
  sv_request :: request
  sv_response :: response_ops
  sv_now :: int

fun detector_run ::
  "pathname_parser \<Rightarrow> detector_config \<Rightarrow> hit_tracker \<Rightarrow> nat \<Rightarrow> served list
     \<Rightarrow> hit_tracker \<times> end_outcome list" where
  "detector_run pathname cfg hitTracker lastIndex [] = (hitTracker, [])"
| "detector_run pathname cfg hitTracker lastIndex (s # rest) =
     (let out = attackDetector pathname cfg hitTracker lastIndex
                  (sv_request s) (sv_response s) (sv_now s);
          r = detector_run pathname cfg (eo_tracker out)
                (lastIndex_after pathname cfg lastIndex (sv_request s)) rest
      in (fst r, out # snd r))"

fun lastIndex_run :: "pathname_parser \<Rightarrow> detector_config \<Rightarrow> nat \<Rightarrow> served list \<Rightarrow> nat" where
  "lastIndex_run pathname cfg lastIndex [] = lastIndex"
| "lastIndex_run pathname cfg lastIndex (s # rest) =
     lastIndex_run pathname cfg (lastIndex_after pathname cfg lastIndex (sv_request s)) rest"

section \<open>Proxy construction\<close>

text \<open>
  \<open>new URL(target)\<close> is the platform's parser. It is a parameter of the model: a
  function that gives the parts the program reads, or \<open>None\<close> where the constructor
  throws.
\<close>

record url_parts =
  url_protocol :: string
  url_hostname :: string
  url_port :: string
  url_host :: string

type_synonym url_parser = "string \<Rightarrow> url_parts option"

record logger_options =
  lo_logDir :: "string option"
  lo_maxDays :: "nat option"

datatype detector_setting =
  NoDetector | SingleDetector detector_options | DetectorArray "detector_options list"

record proxy_options =
  po_target :: "string option"
  po_changeOrigin :: "bool option"
  po_port :: "nat option"
  po_logger :: "logger_options option"
  po_attackDetector :: detector_setting

record proxy_server =
  srv_targetParsed :: target_descriptor
  srv_changeOrigin :: bool
  srv_agent :: agent
  srv_logger :: "logger_options option"
  srv_detectors :: "detector_config list"
  srv_port :: nat

text \<open>What construction does to the outside, in order.\<close>

datatype effect = CreateLogger logger_options | CreateServer | Listen nat

text \<open>\<open>detectors.map(opts => createAttackDetector(opts))\<close>: the first failure ends it.\<close>

fun create_detectors :: "detector_options list \<Rightarrow> js_error + detector_config list" where
  "create_detectors [] = Inr []"
| "create_detectors (opts # rest) =
     (case createAttackDetector opts of
        Inl e \<Rightarrow> Inl e
      | Inr d \<Rightarrow> (case create_detectors rest of Inl e \<Rightarrow> Inl e | Inr ds \<Rightarrow> Inr (d # ds)))"

definition parse_target :: "url_parts \<Rightarrow> target_descriptor" where
  "parse_target targetUrl =
     (let isHttps = (url_protocol targetUrl = ''https:'') in
      \<lparr>tgt_hostname = url_hostname targetUrl,
       tgt_port = (if url_port targetUrl \<noteq> [] then PortString (url_port targetUrl)
                   else PortNumber (if isHttps then 443 else 80)),
       tgt_host = url_host targetUrl,
       tgt_isHttps = isHttps\<rparr>)"

text \<open>\<open>Array.isArray(attackDetectorOptions) ? attackDetectorOptions : [attackDetectorOptions]\<close>
  under \<open>if (attackDetectorOptions)\<close>, and the logger that is created when configured.\<close>

definition detector_list :: "detector_setting \<Rightarrow> detector_options list" where
  "detector_list d =
     (case d of NoDetector \<Rightarrow> [] | SingleDetector x \<Rightarrow> [x] | DetectorArray xs \<Rightarrow> xs)"

definition logging_effects :: "proxy_options \<Rightarrow> effect list" where
  "logging_effects options =
     (case po_logger options of None \<Rightarrow> [] | Some lo \<Rightarrow> [CreateLogger lo])"

definition createProxy ::
  "url_parser \<Rightarrow> proxy_options \<Rightarrow> effect list \<times> (js_error + proxy_server)" where
  "createProxy URL options =
     (if \<not> truthy (po_target options) then ([], Inl (Error ''Target URL is required''))
      else (case URL (js_string (po_target options)) of
         None \<Rightarrow> ([], Inl (Error ''Target must be a valid URL''))
       | Some targetUrl \<Rightarrow>
           (let targetParsed = parse_target targetUrl;
                agent = (if tgt_isHttps targetParsed then httpsAgent else httpAgent);
                port = (case po_port options of None \<Rightarrow> 3000 | Some p \<Rightarrow> p)
            in case create_detectors (detector_list (po_attackDetector options)) of
                 Inl e \<Rightarrow> (logging_effects options, Inl e)
               | Inr detectors \<Rightarrow>
                   (logging_effects options @ [CreateServer, Listen port],
                    Inr \<lparr>srv_targetParsed = targetParsed,
                         srv_changeOrigin =
                           (case po_changeOrigin options of None \<Rightarrow> False | Some b \<Rightarrow> b),
                         srv_agent = agent,
                         srv_logger = po_logger options,
                         srv_detectors = detectors,
                         srv_port = port\<rparr>))))"

text \<open>The last stage of the server's request handler: every request is forwarded with
  the descriptor and the agent kept in the server.\<close>

definition server_forward :: "proxy_server \<Rightarrow> request \<Rightarrow> client_response \<Rightarrow> exchange" where
  "server_forward srv req res =
     forwardRequest req res (srv_targetParsed srv) (srv_changeOrigin srv) (srv_agent srv)"

text \<open>
  The request handler's \<open>next\<close>: the stages it runs from the current \<open>index\<close>, given
  whether a logger is configured and how many detectors there are. The logger and every
  detector call \<open>next\<close> once; forwarding is the last stage and calls nothing.
\<close>

datatype stage = LoggerStage | DetectorStage nat | ForwardStage

function next_stage :: "bool \<Rightarrow> nat \<Rightarrow> nat \<Rightarrow> stage list" where
  "next_stage hasLogger n index =
     (if index = 0 \<and> hasLogger then LoggerStage # next_stage hasLogger n (index + 1)
      else if (if hasLogger then index - 1 else index) < n
        then DetectorStage (if hasLogger then index - 1 else index)
               # next_stage hasLogger n (index + 1)
      else [ForwardStage])"
  by pat_completeness auto
termination
  by (relation "measure (\<lambda>(hasLogger, n, index). n + 2 - index)") (auto split: if_splits)

declare next_stage.simps [simp del]

definition server_stages :: "proxy_server \<Rightarrow> stage list" where
  "server_stages srv = next_stage (srv_logger srv \<noteq> None) (length (srv_detectors srv)) 0"

section \<open>States and sample inputs\<close>

text \<open>A client response is in a state the platform allows when nothing has been written
  and it has not ended, or its head has been sent.\<close>

definition res_wf :: "client_response \<Rightarrow> bool" where
  "res_wf res = (res_headersSent res \<or> (res_body res = [] \<and> \<not> res_finished res))"

definition fresh_response :: client_response where
  "fresh_response =
     \<lparr>res_headersSent = False, res_statusCode = 200, res_headers = [], res_body = [],
      res_finished = False\<rparr>"

definition sample_headers :: "string js_object" where
  "sample_headers =
     [(''Host'', ''example.com''), (''Connection'', ''keep-alive''), (''X-Custom'', ''1''),
      (''KEEP-ALIVE'', ''timeout=5''), (''Transfer-Encoding'', ''chunked''),
      (''upgrade'', ''websocket''), (''Proxy-Connection'', ''close''),
      (''Proxy-Authenticate'', ''Basic''), (''PROXY-AUTHORIZATION'', ''Basic Zm9v''),
      (''TE'', ''trailers''), (''accept'', ''*/*''), (''Trailer'', ''Expires''),
      (''Content-Type'', ''text/plain'')]"

definition sample_target :: target_descriptor where
  "sample_target =
     \<lparr>tgt_hostname = ''api.example.com'', tgt_port = PortNumber 443,
      tgt_host = ''api.example.com'', tgt_isHttps = True\<rparr>"

definition sample_request :: request where
  "sample_request =
     \<lparr>req_url = ''/posts?target=http://evil.example'', req_method = ''GET'',
      req_headers = [(''host'', ''evil.example''), (''accept'', ''*/*''),
                     (''connection'', ''keep-alive'')],
      req_body = [], req_remoteAddress = Some ''10.0.0.7''\<rparr>"

definition sample_exchange :: exchange where
  "sample_exchange = forwardRequest sample_request fresh_response sample_target False httpsAgent"

text \<open>The platform's URL parser at two targets, and a string it rejects.\<close>

definition sample_URL :: url_parser where
  "sample_URL s =
     (if s = ''https://jsonplaceholder.typicode.com''
      then Some \<lparr>url_protocol = ''https:'', url_hostname = ''jsonplaceholder.typicode.com'',
                 url_port = [], url_host = ''jsonplaceholder.typicode.com''\<rparr>
      else if s = ''http://localhost:9000''
      then Some \<lparr>url_protocol = ''http:'', url_hostname = ''localhost'',
                 url_port = ''9000'', url_host = ''localhost:9000''\<rparr>
      else None)"

definition sample_options :: "string option \<Rightarrow> proxy_options" where
  "sample_options target =
     \<lparr>po_target = target, po_changeOrigin = Some True, po_port = None, po_logger = None,
      po_attackDetector = NoDetector\<rparr>"

text \<open>Requests that differ in the headers that carry a client address.\<close>

definition cf_request :: request where
  "cf_request =
     \<lparr>req_url = ''/test'', req_method = ''GET'',
      req_headers = [(''cf-connecting-ip'', ''1.2.3.4''), (''x-forwarded-for'', ''5.6.7.8'')],
      req_body = [], req_remoteAddress = Some ''10.0.0.7''\<rparr>"

definition xff_request :: request where
  "xff_request =
     \<lparr>req_url = ''/test'', req_method = ''GET'',
      req_headers = [(''x-forwarded-for'', ''9.9.9.9, 8.8.8.8'')],
      req_body = [], req_remoteAddress = Some ''10.0.0.7''\<rparr>"

definition bare_request :: request where
  "bare_request =
     \<lparr>req_url = ''/test'', req_method = ''GET'', req_headers = [],
      req_body = [], req_remoteAddress = None\<rparr>"

text \<open>\<open>url.parse(...).pathname\<close> at the request targets the examples use; the value of
  the table at other strings is not used.\<close>

definition sample_pathname :: pathname_parser where
  "sample_pathname u =
     (if u = ''/login'' then Inr (Some ''/login'')
      else if u = ''/login?attempt=2'' then Inr (Some ''/login'')
      else if u = ''/other?next=/login'' then Inr (Some ''/other'')
      else if u = ''http://example.com/login'' then Inr (Some ''/login'')
      else if u = ''/api/users'' then Inr (Some ''/api/users'')
      else Inr None)"

text \<open>A detector on failed logins (threshold 3, window 1000 ms), a failed login whose
  response ends at a given time, and three callbacks.\<close>

definition login_cfg :: "callback \<Rightarrow> detector_config" where
  "login_cfg cb =
     \<lparr>cfg_path = ExactPath ''/login'', cfg_statusCode = 401, cfg_threshold = 3,
      cfg_timeWindow = 1000, cfg_onTrigger = cb\<rparr>"

definition login_request :: request where
  "login_request =
     \<lparr>req_url = ''/login'', req_method = ''POST'',
      req_headers = [(''x-forwarded-for'', ''192.168.1.100''), (''user-agent'', ''test-agent'')],
      req_body = [], req_remoteAddress = Some ''192.168.1.100''\<rparr>"

definition failed_login :: "int \<Rightarrow> served" where
  "failed_login now =
     \<lparr>sv_request = login_request,
      sv_response = \<lparr>rs_writeHead = None, rs_statusCode = 401\<rparr>,
      sv_now = now\<rparr>"



definition absolute_request :: request where
  "absolute_request = login_request\<lparr>req_url := ''http://example.com/login''\<rparr>"

text \<open>An expression with the g flag that matches, from the start of the string, \<open>/api/\<close>
  followed by anything, as its \<open>test\<close> behaves on strings without line breaks: from
  \<open>lastIndex\<close> 0 it matches a string that starts with \<open>/api/\<close> and moves \<open>lastIndex\<close> to the
  end of the string; otherwise it fails and \<open>lastIndex\<close> becomes 0.\<close>

definition api_global_test :: "nat \<Rightarrow> string \<Rightarrow> bool \<times> nat" where
  "api_global_test lastIndex str =
     (if lastIndex = 0 \<and> take 5 str = ''/api/'' then (True, length str) else (False, 0))"

definition returns_normally :: callback where
  "returns_normally ev = None"

definition throws_error :: callback where
  "throws_error ev = Some (ThrownValue (Some ''block failed''))"

definition throws_null :: callback where
  "throws_null ev = Some ThrownNull"

text \<open>A detector on that expression with threshold 2, and a request it monitors
  answered 404.\<close>

definition scan_cfg :: detector_config where
  "scan_cfg =
     \<lparr>cfg_path = RegExpPath api_global_test, cfg_statusCode = 404, cfg_threshold = 2,
      cfg_timeWindow = 1000, cfg_onTrigger = returns_normally\<rparr>"

definition missing_page :: "int \<Rightarrow> served" where
  "missing_page now =
     \<lparr>sv_request = login_request\<lparr>req_url := ''/api/users''\<rparr>,
      sv_response = \<lparr>rs_writeHead = None, rs_statusCode = 404\<rparr>,
      sv_now = now\<rparr>"

definition busy_tracker :: hit_tracker where
  "busy_tracker = Map.empty(Some ''192.168.1.100'' \<mapsto> [3000, 4500])"

definition negative_window_options :: detector_options where
  "negative_window_options =
     \<lparr>do_path = Some (ExactPath ''/login''), do_statusCode = Some 401, do_threshold = Some 2,
      do_timeWindow = Some (- 1), do_onTrigger = Some returns_normally\<rparr>"

text \<open>
  Notions the statements about the detector use. Served requests are matching hits for
  an address, from a given \<open>lastIndex\<close>, when for each in turn the platform gives a
  pathname, the path matches at the \<open>lastIndex\<close> reached, the status is the watched one
  and the detector files the request under that address. The pathname the platform gave.
  The outcome of a call that changes nothing and triggers nothing. A callback result is
  contained when the \<open>catch\<close> block can read its message: the callback returned, or threw
  something other than \<open>null\<close> and \<open>undefined\<close>. The event passed to \<open>onTrigger\<close>.
  Timestamps lie within a window when each is less than the window after every earlier
  one.
\<close>

fun matching_hits ::
  "pathname_parser \<Rightarrow> detector_config \<Rightarrow> string option \<Rightarrow> nat \<Rightarrow> served list \<Rightarrow> bool" where
  "matching_hits pathname cfg ip lastIndex [] = True"
| "matching_hits pathname cfg ip lastIndex (s # rest) =
     (case pathname (req_url (sv_request s)) of
        Inl e \<Rightarrow> False
      | Inr requestPath \<Rightarrow>
          fst (matchPath cfg lastIndex requestPath)
          \<and> statusCodeSent (sv_response s) = cfg_statusCode cfg
          \<and> detector_ip (sv_request s) = ip
          \<and> matching_hits pathname cfg ip (snd (matchPath cfg lastIndex requestPath)) rest)"

definition parsed_path :: "pathname_parser \<Rightarrow> request \<Rightarrow> string option" where
  "parsed_path pathname req =
     (case pathname (req_url req) of Inl e \<Rightarrow> None | Inr requestPath \<Rightarrow> requestPath)"

definition quiet_outcome :: "hit_tracker \<Rightarrow> end_outcome" where
  "quiet_outcome tr =
     \<lparr>eo_tracker = tr, eo_triggered = [], eo_console = [], eo_originalEnd = True,
      eo_thrown = None, eo_next = 1\<rparr>"

definition contained :: "js_thrown option \<Rightarrow> bool" where
  "contained r = (r \<noteq> Some ThrownNull \<and> r \<noteq> Some ThrownUndefined)"

definition trigger_event_of ::
  "request \<Rightarrow> string option \<Rightarrow> string option \<Rightarrow> nat \<Rightarrow> int \<Rightarrow> trigger_event" where
  "trigger_event_of req ip requestPath n now =
     \<lparr>ev_ip = ip, ev_hits = n, ev_path = requestPath, ev_timestamp = now,
      ev_userAgent = userAgent_of req\<rparr>"

definition within_window :: "int \<Rightarrow> int list \<Rightarrow> bool" where
  "within_window w ts = (\<forall>j < length ts. \<forall>i < j. ts ! j - ts ! i < w)"

section \<open>Objects: reading, assigning, deleting\<close>

lemma obj_set_fresh: "k \<notin> fst ` set obj \<Longrightarrow> obj_set k v obj = obj @ [(k, v)]"
  by (induction obj) auto

lemma obj_get_obj_set: "obj_get (obj_set k v obj) k = Some v"
  by (induction obj) (auto simp: obj_get_def)

lemma keys_obj_set: "set (obj_keys (obj_set k v obj)) = insert k (set (obj_keys obj))"
proof (induction obj)
  case Nil
  show ?case by (simp add: obj_keys_def)
next
  case (Cons e es)
  obtain k' v' where e: "e = (k', v')" by (cases e)
  from Cons show ?case unfolding e obj_keys_def by (cases "k' = k") auto
qed

lemma keys_obj_delete: "set (obj_keys (obj_delete k obj)) = set (obj_keys obj) - {k}"
  by (auto simp: obj_keys_def obj_delete_def)

lemma toLowerCase_samples:
  "toLowerCase ''Host'' = ''host''"
  "toLowerCase ''Connection'' = ''connection''"
  "toLowerCase ''X-Custom'' = ''x-custom''"
  "toLowerCase ''KEEP-ALIVE'' = ''keep-alive''"
  "toLowerCase ''Transfer-Encoding'' = ''transfer-encoding''"
  "toLowerCase ''upgrade'' = ''upgrade''"
  "toLowerCase ''Proxy-Connection'' = ''proxy-connection''"
  "toLowerCase ''Proxy-Authenticate'' = ''proxy-authenticate''"
  "toLowerCase ''PROXY-AUTHORIZATION'' = ''proxy-authorization''"
  "toLowerCase ''TE'' = ''te''"
  "toLowerCase ''Trailer'' = ''trailer''"
  "toLowerCase ''Content-Type'' = ''content-type''"
  "toLowerCase ''accept'' = ''accept''"
  "toLowerCase ''host'' = ''host''"
  "toLowerCase ''connection'' = ''connection''"
  by (simp_all add: toLowerCase_def toLowerCase_char_def upper_letters_def lower_letters_def)

section \<open>Header filter: what it keeps and what it drops\<close>

lemma fold_filterHeaders_step:
  "distinct (map fst hs) \<Longrightarrow> fst ` set hs \<inter> fst ` set acc = {} \<Longrightarrow>
   fold filterHeaders_step hs acc = acc @ filter safe_header hs"
proof (induction hs arbitrary: acc)
  case Nil
  then show ?case by simp
next
  case (Cons h hs)
  obtain k v where h: "h = (k, v)" by (cases h)
  from Cons.prems have dist: "distinct (map fst hs)" by simp
  show ?case
  proof (cases "safe_header h")
    case True
    from Cons.prems h have fresh: "k \<notin> fst ` set acc" by auto
    have step: "filterHeaders_step h acc = acc @ [(k, v)]"
      using True h fresh
      by (simp add: filterHeaders_step_def safe_header_def includes_js_def obj_set_fresh)
    have disj: "fst ` set hs \<inter> fst ` set (acc @ [(k, v)]) = {}"
      using Cons.prems h by auto
    from Cons.IH[OF dist disj] step True h show ?thesis by simp
  next
    case False
    have step: "filterHeaders_step h acc = acc"
      using False h by (simp add: filterHeaders_step_def safe_header_def includes_js_def)
    have disj: "fst ` set hs \<inter> fst ` set acc = {}"
      using Cons.prems by auto
    from Cons.IH[OF dist disj] step False show ?thesis by simp
  qed
qed

lemma filterHeaders_filter:
  "distinct (obj_keys headers) \<Longrightarrow> filterHeaders headers = filter safe_header headers"
  using fold_filterHeaders_step[of headers "[]"] by (simp add: filterHeaders_def obj_keys_def)

lemma keys_fold_filterHeaders_step:
  "set (obj_keys (fold filterHeaders_step hs acc)) \<subseteq> set (obj_keys hs) \<union> set (obj_keys acc)"
proof (induction hs arbitrary: acc)
  case Nil
  then show ?case by simp
next
  case (Cons h hs)
  have "set (obj_keys (filterHeaders_step h acc)) \<subseteq> insert (fst h) (set (obj_keys acc))"
    by (cases h) (auto simp: filterHeaders_step_def Let_def keys_obj_set)
  with Cons.IH[of "filterHeaders_step h acc"] show ?case
    by (auto simp: obj_keys_def)
qed

lemma keys_filterHeaders: "set (obj_keys (filterHeaders hs)) \<subseteq> set (obj_keys hs)"
  using keys_fold_filterHeaders_step[of hs "[]"] by (simp add: filterHeaders_def obj_keys_def)

text \<open>
  C6. For every header object (its keys are distinct, as an object's are),
  \<open>filterHeaders\<close> returns the entries whose name, lower-cased, is none of connection,
  keep-alive, transfer-encoding, upgrade, proxy-connection, proxy-authenticate,
  proxy-authorization, te and trailer, in their original order, with their original
  spelling and value: the result has no key that lower-cases to one of the nine names,
  whatever its casing, and every other key of the input still maps to its value. The
  function is total (no error value) and builds a new object; its argument is a value and
  stays what it was.
\<close>

theorem filterHeaders_correct:
  assumes "distinct (obj_keys headers)"
  shows "filterHeaders headers =
           filter (\<lambda>entry. toLowerCase (fst entry) \<notin>
               {''connection'', ''keep-alive'', ''transfer-encoding'', ''upgrade'',
                ''proxy-connection'', ''proxy-authenticate'', ''proxy-authorization'',
                ''te'', ''trailer''}) headers
       \<and> (\<forall>k. toLowerCase k \<in>
               {''connection'', ''keep-alive'', ''transfer-encoding'', ''upgrade'',
                ''proxy-connection'', ''proxy-authenticate'', ''proxy-authorization'',
                ''te'', ''trailer''}
              \<longrightarrow> k \<notin> set (obj_keys (filterHeaders headers)))
       \<and> (\<forall>k v. (k, v) \<in> set headers \<and> toLowerCase k \<notin>
               {''connection'', ''keep-alive'', ''transfer-encoding'', ''upgrade'',
                ''proxy-connection'', ''proxy-authenticate'', ''proxy-authorization'',
                ''te'', ''trailer''}
              \<longrightarrow> obj_get (filterHeaders headers) k = Some v)
       \<and> distinct (obj_keys (filterHeaders headers))"
proof -
  let ?nine = "{''connection'', ''keep-alive'', ''transfer-encoding'', ''upgrade'',
                ''proxy-connection'', ''proxy-authenticate'', ''proxy-authorization'',
                ''te'', ''trailer''}"
  have nine: "set BLOCKED_HEADERS = ?nine"
    by (simp add: BLOCKED_HEADERS_def)
  have safe: "safe_header = (\<lambda>entry. toLowerCase (fst entry) \<notin> ?nine)"
    by (rule ext) (simp only: safe_header_def nine)
  have eq: "filterHeaders headers = filter (\<lambda>entry. toLowerCase (fst entry) \<notin> ?nine) headers"
    using filterHeaders_filter[OF assms] by (simp only: safe)
  have blocked: "\<forall>k. toLowerCase k \<in> ?nine \<longrightarrow> k \<notin> set (obj_keys (filterHeaders headers))"
    unfolding eq obj_keys_def by auto
  have d: "distinct (map fst (filter (\<lambda>entry. toLowerCase (fst entry) \<notin> ?nine) headers))"
    using assms by (simp add: obj_keys_def distinct_map_filter)
  have kept: "obj_get (filterHeaders headers) k = Some v"
    if "(k, v) \<in> set headers \<and> toLowerCase k \<notin> ?nine" for k v
  proof -
    from that have "(k, v) \<in> set (filter (\<lambda>entry. toLowerCase (fst entry) \<notin> ?nine) headers)"
      by simp
    from map_of_is_SomeI[OF d this] show ?thesis
      unfolding eq obj_get_def .
  qed
  from d have d': "distinct (obj_keys (filterHeaders headers))"
    unfolding eq obj_keys_def .
  from eq blocked kept d' show ?thesis by blast
qed

theorem filterHeaders_correct_witness:
  "distinct (obj_keys sample_headers)
   \<and> filterHeaders sample_headers =
       [(''Host'', ''example.com''), (''X-Custom'', ''1''), (''accept'', ''*/*''),
        (''Content-Type'', ''text/plain'')]"
proof -
  have d: "distinct (obj_keys sample_headers)"
    by (simp add: sample_headers_def obj_keys_def)
  have "filterHeaders sample_headers =
      filter (\<lambda>entry. toLowerCase (fst entry) \<notin>
               {''connection'', ''keep-alive'', ''transfer-encoding'', ''upgrade'',
                ''proxy-connection'', ''proxy-authenticate'', ''proxy-authorization'',
                ''te'', ''trailer''}) sample_headers"
    using filterHeaders_correct[OF d] by blast
  also have "\<dots> = [(''Host'', ''example.com''), (''X-Custom'', ''1''), (''accept'', ''*/*''),
        (''Content-Type'', ''text/plain'')]"
    by (simp add: sample_headers_def toLowerCase_samples)
  finally show ?thesis using d by simp
qed

section \<open>Forwarding engine: the outbound request\<close>

text \<open>
  C1. For every inbound request, client response, target descriptor, \<open>changeOrigin\<close>
  and agent, the outbound request that \<open>forwardRequest\<close> builds has the descriptor's
  hostname and port, the inbound request's URL as its path and the inbound request's
  method, and uses the protocol the descriptor names. The request is arbitrary: no query
  parameter, header or body of it changes any of the five.
\<close>

theorem forwardRequest_target_fixed:
  "opt_hostname (pr_options (ex_proxyReq
       (forwardRequest clientReq clientRes targetParsed changeOrigin agent)))
     = tgt_hostname targetParsed
   \<and> opt_port (pr_options (ex_proxyReq
       (forwardRequest clientReq clientRes targetParsed changeOrigin agent)))
     = tgt_port targetParsed
   \<and> opt_path (pr_options (ex_proxyReq
       (forwardRequest clientReq clientRes targetParsed changeOrigin agent)))
     = req_url clientReq
   \<and> opt_method (pr_options (ex_proxyReq
       (forwardRequest clientReq clientRes targetParsed changeOrigin agent)))
     = req_method clientReq
   \<and> pr_protocol (ex_proxyReq
       (forwardRequest clientReq clientRes targetParsed changeOrigin agent))
     = (if tgt_isHttps targetParsed then https else http)"
  by (simp add: forwardRequest_def forwardRequest_options_def Let_def)

lemma distinct_obj_set: "distinct (obj_keys obj) \<Longrightarrow> distinct (obj_keys (obj_set k v obj))"
proof (induction obj)
  case Nil
  show ?case by (simp add: obj_keys_def)
next
  case (Cons e es)
  obtain k' v' where e: "e = (k', v')" by (cases e)
  from Cons.prems have d: "distinct (obj_keys es)" and n: "k' \<notin> set (obj_keys es)"
    by (simp_all add: obj_keys_def e)
  show ?case
  proof (cases "k' = k")
    case True
    with Cons.prems show ?thesis by (simp add: e obj_keys_def)
  next
    case False
    from Cons.IH[OF d] have "distinct (obj_keys (obj_set k v es))" .
    moreover from n False have "k' \<notin> set (obj_keys (obj_set k v es))"
      by (simp add: keys_obj_set)
    ultimately show ?thesis using False by (simp add: e obj_keys_def)
  qed
qed

lemma distinct_filterHeaders:
  "distinct (obj_keys hs) \<Longrightarrow> distinct (obj_keys (filterHeaders hs))"
  by (simp add: filterHeaders_filter) (simp add: obj_keys_def distinct_map_filter)

lemma host_entries_changeOrigin:
  assumes d: "distinct (obj_keys (req_headers clientReq))"
    and low: "\<forall>k \<in> set (obj_keys (req_headers clientReq)). toLowerCase k = k"
    and e: "(k, v) \<in> set (opt_headers (forwardRequest_options clientReq targetParsed True agent))"
    and h: "toLowerCase k = ''host''"
  shows "k = ''host'' \<and> v = tgt_host targetParsed"
proof -
  let ?out = "obj_set ''host'' (tgt_host targetParsed) (filterHeaders (req_headers clientReq))"
  from e have mem: "(k, v) \<in> set ?out"
    by (simp add: forwardRequest_options_def Let_def)
  then have "k \<in> set (obj_keys ?out)" by (force simp: obj_keys_def)
  then have "k = ''host'' \<or> k \<in> set (obj_keys (filterHeaders (req_headers clientReq)))"
    by (simp add: keys_obj_set)
  with keys_filterHeaders[of "req_headers clientReq"] low h have k: "k = ''host''"
    by (metis subsetD)
  have "distinct (map fst ?out)"
    using distinct_obj_set[OF distinct_filterHeaders[OF d]] by (simp add: obj_keys_def)
  from map_of_is_SomeI[OF this mem] have "obj_get ?out k = Some v" by (simp add: obj_get_def)
  with k show ?thesis by (simp add: obj_get_obj_set)
qed

text \<open>
  C7. With \<open>changeOrigin\<close> true the outbound headers map \<open>host\<close> to the target's host.
  With \<open>changeOrigin\<close> false the outbound headers have no \<open>host\<close> key. The platform hands
  the program a header object with names in lower case; for such a request, with
  \<open>changeOrigin\<close> false no outbound header name is \<open>host\<close> in any casing, so the inbound
  Host header is not forwarded, and with \<open>changeOrigin\<close> true the only outbound header
  whose name is \<open>host\<close> in any casing is \<open>host\<close> with the target's host as its value.
\<close>

theorem forwardRequest_host_header:
  "obj_get (opt_headers (forwardRequest_options clientReq targetParsed True agent)) ''host''
     = Some (tgt_host targetParsed)
   \<and> ''host'' \<notin> set (obj_keys (opt_headers
         (forwardRequest_options clientReq targetParsed False agent)))
   \<and> ((\<forall>k \<in> set (obj_keys (req_headers clientReq)). toLowerCase k = k) \<longrightarrow>
        (\<forall>k \<in> set (obj_keys (opt_headers
              (forwardRequest_options clientReq targetParsed False agent))).
            toLowerCase k \<noteq> ''host''))
   \<and> (distinct (obj_keys (req_headers clientReq))
        \<and> (\<forall>k \<in> set (obj_keys (req_headers clientReq)). toLowerCase k = k) \<longrightarrow>
        (\<forall>k v. (k, v) \<in> set (opt_headers
                (forwardRequest_options clientReq targetParsed True agent))
              \<and> toLowerCase k = ''host''
            \<longrightarrow> k = ''host'' \<and> v = tgt_host targetParsed))"
proof -
  have set_host: "obj_get (opt_headers (forwardRequest_options clientReq targetParsed True agent))
      ''host'' = Some (tgt_host targetParsed)"
    by (simp add: forwardRequest_options_def Let_def obj_get_obj_set)
  have no_key: "''host'' \<notin> set (obj_keys (opt_headers
          (forwardRequest_options clientReq targetParsed False agent)))"
    by (simp add: forwardRequest_options_def Let_def keys_obj_delete)
  have no_casing: "toLowerCase k \<noteq> ''host''"
    if low: "\<forall>k \<in> set (obj_keys (req_headers clientReq)). toLowerCase k = k"
      and k: "k \<in> set (obj_keys (opt_headers
              (forwardRequest_options clientReq targetParsed False agent)))" for k
  proof -
    from k have "k \<in> set (obj_keys (filterHeaders (req_headers clientReq)))"
      and ne: "k \<noteq> ''host''"
      by (simp_all add: forwardRequest_options_def Let_def keys_obj_delete)
    with keys_filterHeaders have "k \<in> set (obj_keys (req_headers clientReq))" by blast
    with low have "toLowerCase k = k" by blast
    with ne show ?thesis by simp
  qed
  from set_host no_key no_casing host_entries_changeOrigin[of clientReq _ _ targetParsed agent]
  show ?thesis by blast
qed

lemma sample_request_filtered:
  "filterHeaders (req_headers sample_request) = [(''host'', ''evil.example''), (''accept'', ''*/*'')]"
  by (simp add: sample_request_def filterHeaders_def filterHeaders_step_def includes_js_def
      BLOCKED_HEADERS_def toLowerCase_samples)

theorem forwardRequest_host_header_witness:
  "distinct (obj_keys (req_headers sample_request))
   \<and> list_all (\<lambda>k. toLowerCase k = k) (obj_keys (req_headers sample_request))
   \<and> opt_headers (forwardRequest_options sample_request sample_target False httpsAgent)
       = [(''accept'', ''*/*'')]
   \<and> list_all (\<lambda>k. toLowerCase k \<noteq> ''host'')
       (obj_keys (opt_headers (forwardRequest_options sample_request sample_target False httpsAgent)))
   \<and> opt_headers (forwardRequest_options sample_request sample_target True httpsAgent)
       = [(''host'', ''api.example.com''), (''accept'', ''*/*'')]
   \<and> list_all (\<lambda>e. toLowerCase (fst e) = ''host'' \<and> fst e = ''host'' \<and> snd e = ''api.example.com''
                  \<or> toLowerCase (fst e) \<noteq> ''host'')
       (opt_headers (forwardRequest_options sample_request sample_target True httpsAgent))"
proof -
  note all = forwardRequest_host_header[of sample_request sample_target httpsAgent]
  have d: "distinct (obj_keys (req_headers sample_request))"
    by (simp add: sample_request_def obj_keys_def)
  have low: "\<forall>k \<in> set (obj_keys (req_headers sample_request)). toLowerCase k = k"
    by (simp add: sample_request_def obj_keys_def toLowerCase_samples)
  from all low
  have none: "\<forall>k \<in> set (obj_keys (opt_headers
              (forwardRequest_options sample_request sample_target False httpsAgent))).
            toLowerCase k \<noteq> ''host''"
    by blast
  from all d low
  have one: "\<forall>k v. (k, v) \<in> set (opt_headers
                (forwardRequest_options sample_request sample_target True httpsAgent))
              \<and> toLowerCase k = ''host''
            \<longrightarrow> k = ''host'' \<and> v = tgt_host sample_target"
    by blast
  have off: "opt_headers (forwardRequest_options sample_request sample_target False httpsAgent)
       = [(''accept'', ''*/*'')]"
    by (simp add: forwardRequest_options_def Let_def sample_request_filtered obj_delete_def)
  have on: "opt_headers (forwardRequest_options sample_request sample_target True httpsAgent)
       = [(''host'', ''api.example.com''), (''accept'', ''*/*'')]"
    by (simp add: forwardRequest_options_def Let_def sample_request_filtered sample_target_def)
  have host: "tgt_host sample_target = ''api.example.com''"
    by (simp add: sample_target_def)
  from one have "list_all (\<lambda>e. toLowerCase (fst e) = ''host'' \<and> fst e = ''host''
                    \<and> snd e = ''api.example.com'' \<or> toLowerCase (fst e) \<noteq> ''host'')
       (opt_headers (forwardRequest_options sample_request sample_target True httpsAgent))"
    unfolding list_all_iff host by force
  with d low none off on show ?thesis by (simp add: list_all_iff)
qed

section \<open>Forwarding engine: timeout and connection errors\<close>

lemma ERROR_TIMEOUT_text:
  \<open>ERROR_TIMEOUT =
     ''{"error":"Gateway Timeout","message":"Target server took too long to respond"}''\<close>
  by (simp add: ERROR_TIMEOUT_def JSON_stringify_def json_quote_def json_escape_def)

lemma ERROR_PROXY_text:
  \<open>ERROR_PROXY =
     ''{"error":"Proxy Error","message":"An error occurred during proxy request"}''\<close>
  by (simp add: ERROR_PROXY_def JSON_stringify_def json_quote_def json_escape_def)

lemma on_timeout_fresh:
  assumes "res_wf (ex_clientRes ex)" "\<not> res_headersSent (ex_clientRes ex)"
  shows "on_timeout ex =
    Inr (ex\<lparr>ex_console := ex_console ex @ [''Proxy Error: Request timeout''],
            ex_proxyReq := (ex_proxyReq ex)\<lparr>pr_destroyed := True\<rparr>,
            ex_clientRes := \<lparr>res_headersSent = True, res_statusCode = 504,
               res_headers = [(''Content-Type'', ''application/json'')],
               res_body = [ERROR_TIMEOUT], res_finished = True\<rparr>\<rparr>)"
  using assms
  by (cases "ex_clientRes ex")
    (simp add: on_timeout_def Let_def writeHead_def res_end_def res_wf_def)

lemma on_timeout_sent:
  assumes "res_headersSent (ex_clientRes ex)"
  shows "on_timeout ex =
    Inr (ex\<lparr>ex_console := ex_console ex @ [''Proxy Error: Request timeout''],
            ex_proxyReq := (ex_proxyReq ex)\<lparr>pr_destroyed := True\<rparr>\<rparr>)"
  using assms by (simp add: on_timeout_def Let_def)

lemma on_error_fresh:
  assumes "res_wf (ex_clientRes ex)" "\<not> res_headersSent (ex_clientRes ex)"
  shows "on_error message ex =
    Inr (ex\<lparr>ex_console := ex_console ex @ [''Proxy Error: '' @ message],
            ex_clientRes := \<lparr>res_headersSent = True, res_statusCode = 500,
               res_headers = [(''Content-Type'', ''application/json'')],
               res_body = [ERROR_PROXY], res_finished = True\<rparr>\<rparr>)"
  using assms
  by (cases "ex_clientRes ex")
    (simp add: on_error_def Let_def writeHead_def res_end_def res_wf_def)

lemma on_error_sent:
  assumes "res_headersSent (ex_clientRes ex)"
  shows "on_error message ex =
    Inr (ex\<lparr>ex_console := ex_console ex @ [''Proxy Error: '' @ message]\<rparr>)"
  using assms by (simp add: on_error_def Let_def)

text \<open>The states the platform allows are closed under everything the callbacks do.\<close>

lemma res_wf_fresh: "res_wf fresh_response"
  by (simp add: res_wf_def fresh_response_def)

lemma res_wf_writeHead: "writeHead code hdrs res = Inr res' \<Longrightarrow> res_wf res'"
  by (auto simp: writeHead_def res_wf_def split: if_splits)

lemma res_wf_res_end: "res_wf res \<Longrightarrow> res_wf (res_end chunk res)"
  by (auto simp: res_end_def res_wf_def)

lemma res_wf_on_response: "on_response code hdrs payload ex = Inr ex' \<Longrightarrow> res_wf (ex_clientRes ex')"
  by (auto simp: on_response_def res_wf_res_end dest!: res_wf_writeHead split: sum.splits)

lemma res_wf_on_timeout:
  "res_wf (ex_clientRes ex) \<Longrightarrow> on_timeout ex = Inr ex' \<Longrightarrow> res_wf (ex_clientRes ex')"
  by (cases "res_headersSent (ex_clientRes ex)")
    (auto simp: on_timeout_sent on_timeout_fresh res_wf_def)

lemma res_wf_on_error:
  "res_wf (ex_clientRes ex) \<Longrightarrow> on_error message ex = Inr ex' \<Longrightarrow> res_wf (ex_clientRes ex')"
  by (cases "res_headersSent (ex_clientRes ex)")
    (auto simp: on_error_sent on_error_fresh res_wf_def)

text \<open>Destroying the outbound request makes the platform report an error on it
  afterwards; by then the head has been sent, and the 504 response stays as it is.\<close>

lemma timeout_then_error:
  assumes "res_wf (ex_clientRes ex)" "\<not> res_headersSent (ex_clientRes ex)"
  shows "\<exists>ex1 ex2. on_timeout ex = Inr ex1 \<and> on_error message ex1 = Inr ex2
           \<and> ex_clientRes ex2 = ex_clientRes ex1
           \<and> res_statusCode (ex_clientRes ex2) = 504
           \<and> res_body (ex_clientRes ex2) = [ERROR_TIMEOUT]"
  using assms by (simp add: on_timeout_fresh on_error_sent)

text \<open>
  C3. The outbound request is created with a timeout of 30000 ms, and once the upstream
  has been silent that long the timeout callback runs. The callback never throws; it
  destroys the outbound request, and when the head of the client response has not been
  sent the client response becomes status 504 with the one body \<open>ERROR_TIMEOUT\<close>, ended.
  The \<open>error\<close> callback never throws; when the head has not been sent the client
  response becomes status 500 with the one body \<open>ERROR_PROXY\<close>, ended. When the head has
  been sent, both leave the client response as it is. The two bodies are the JSON texts
  of the interface.
\<close>

theorem upstream_failure_responses:
  assumes "res_wf (ex_clientRes ex)"
  shows \<open>pr_timeout (ex_proxyReq
            (forwardRequest clientReq clientRes targetParsed changeOrigin agent)) = 30000
    \<and> (\<forall>ms. pr_timeout (ex_proxyReq ex) \<le> ms \<longrightarrow> upstream_silent ms ex = on_timeout ex)
    \<and> (\<exists>ex'. on_timeout ex = Inr ex' \<and> pr_destroyed (ex_proxyReq ex')
          \<and> ex_clientRes ex' =
              (if res_headersSent (ex_clientRes ex) then ex_clientRes ex
               else \<lparr>res_headersSent = True, res_statusCode = 504,
                     res_headers = [(''Content-Type'', ''application/json'')],
                     res_body = [ERROR_TIMEOUT], res_finished = True\<rparr>))
    \<and> (\<exists>ex'. on_error message ex = Inr ex' \<and> ex_proxyReq ex' = ex_proxyReq ex
          \<and> ex_clientRes ex' =
              (if res_headersSent (ex_clientRes ex) then ex_clientRes ex
               else \<lparr>res_headersSent = True, res_statusCode = 500,
                     res_headers = [(''Content-Type'', ''application/json'')],
                     res_body = [ERROR_PROXY], res_finished = True\<rparr>))
    \<and> ERROR_TIMEOUT =
        ''{"error":"Gateway Timeout","message":"Target server took too long to respond"}''
    \<and> ERROR_PROXY =
        ''{"error":"Proxy Error","message":"An error occurred during proxy request"}''\<close>
proof (intro conjI allI impI)
  show "pr_timeout (ex_proxyReq
          (forwardRequest clientReq clientRes targetParsed changeOrigin agent)) = 30000"
    by (simp add: forwardRequest_def)
  show "upstream_silent ms ex = on_timeout ex" if "pr_timeout (ex_proxyReq ex) \<le> ms" for ms
    using that by (simp add: upstream_silent_def)
  show "\<exists>ex'. on_timeout ex = Inr ex' \<and> pr_destroyed (ex_proxyReq ex')
          \<and> ex_clientRes ex' =
              (if res_headersSent (ex_clientRes ex) then ex_clientRes ex
               else \<lparr>res_headersSent = True, res_statusCode = 504,
                     res_headers = [(''Content-Type'', ''application/json'')],
                     res_body = [ERROR_TIMEOUT], res_finished = True\<rparr>)"
  proof (cases "res_headersSent (ex_clientRes ex)")
    case True
    then show ?thesis by (simp add: on_timeout_sent)
  next
    case False
    with assms show ?thesis by (simp add: on_timeout_fresh)
  qed
  show "\<exists>ex'. on_error message ex = Inr ex' \<and> ex_proxyReq ex' = ex_proxyReq ex
          \<and> ex_clientRes ex' =
              (if res_headersSent (ex_clientRes ex) then ex_clientRes ex
               else \<lparr>res_headersSent = True, res_statusCode = 500,
                     res_headers = [(''Content-Type'', ''application/json'')],
                     res_body = [ERROR_PROXY], res_finished = True\<rparr>)"
  proof (cases "res_headersSent (ex_clientRes ex)")
    case True
    then show ?thesis by (simp add: on_error_sent)
  next
    case False
    with assms show ?thesis by (simp add: on_error_fresh)
  qed
  show \<open>ERROR_TIMEOUT =
     ''{"error":"Gateway Timeout","message":"Target server took too long to respond"}''\<close>
    by (rule ERROR_TIMEOUT_text)
  show \<open>ERROR_PROXY =
     ''{"error":"Proxy Error","message":"An error occurred during proxy request"}''\<close>
    by (rule ERROR_PROXY_text)
qed

theorem upstream_failure_responses_witness:
  "res_wf (ex_clientRes sample_exchange)
   \<and> pr_timeout (ex_proxyReq sample_exchange) \<le> 30000
   \<and> (\<exists>ex'. upstream_silent 30000 sample_exchange = Inr ex'
         \<and> pr_destroyed (ex_proxyReq ex')
         \<and> res_statusCode (ex_clientRes ex') = 504
         \<and> res_body (ex_clientRes ex') = [ERROR_TIMEOUT])
   \<and> (\<exists>ex'. on_error ''connect ECONNREFUSED'' sample_exchange = Inr ex'
         \<and> res_statusCode (ex_clientRes ex') = 500
         \<and> res_body (ex_clientRes ex') = [ERROR_PROXY])"
proof -
  have wf: "res_wf (ex_clientRes sample_exchange)"
    by (simp add: sample_exchange_def forwardRequest_def fresh_response_def res_wf_def)
  have fresh: "\<not> res_headersSent (ex_clientRes sample_exchange)"
    by (simp add: sample_exchange_def forwardRequest_def fresh_response_def)
  have due: "pr_timeout (ex_proxyReq sample_exchange) \<le> 30000"
    by (simp add: sample_exchange_def forwardRequest_def)
  note all = upstream_failure_responses[OF wf, of sample_request fresh_response sample_target
      False httpsAgent "''connect ECONNREFUSED''"]
  from all due have silent: "upstream_silent 30000 sample_exchange = on_timeout sample_exchange"
    by blast
  from all fresh have "\<exists>ex'. on_timeout sample_exchange = Inr ex'
         \<and> pr_destroyed (ex_proxyReq ex')
         \<and> res_statusCode (ex_clientRes ex') = 504
         \<and> res_body (ex_clientRes ex') = [ERROR_TIMEOUT]"
    by auto
  moreover from all fresh have "\<exists>ex'. on_error ''connect ECONNREFUSED'' sample_exchange = Inr ex'
         \<and> res_statusCode (ex_clientRes ex') = 500
         \<and> res_body (ex_clientRes ex') = [ERROR_PROXY]"
    by auto
  ultimately show ?thesis using wf due silent by simp
qed

section \<open>Client address: logger and detector\<close>

lemma js_split_nonempty: "js_split sep s \<noteq> []"
  by (induction s) (auto split: list.splits)

lemma first_entry_samples:
  "first_entry ''5.6.7.8'' = ''5.6.7.8''"
  "first_entry ''9.9.9.9, 8.8.8.8'' = ''9.9.9.9''"
  "first_entry ''192.168.1.100'' = ''192.168.1.100''"
  by (simp_all add: first_entry_def js_trim_def is_white_space_def)

text \<open>The two resolutions, each as the chain of tests it is.\<close>

lemma getClientIP_order:
  "getClientIP req =
     (if truthy (obj_get (req_headers req) ''cf-connecting-ip'')
        then js_string (obj_get (req_headers req) ''cf-connecting-ip'')
      else if truthy (obj_get (req_headers req) ''x-forwarded-for'')
        then first_entry (js_string (obj_get (req_headers req) ''x-forwarded-for''))
      else if truthy (obj_get (req_headers req) ''x-real-ip'')
        then js_string (obj_get (req_headers req) ''x-real-ip'')
      else if truthy (req_remoteAddress req) then js_string (req_remoteAddress req)
      else ''unknown'')"
  by (simp add: getClientIP_def Let_def js_or_def js_string_def)

lemma detector_ip_order:
  "detector_ip req =
     (if truthy (map_option first_entry (obj_get (req_headers req) ''x-forwarded-for''))
        then map_option first_entry (obj_get (req_headers req) ''x-forwarded-for'')
      else if truthy (obj_get (req_headers req) ''x-real-ip'')
        then obj_get (req_headers req) ''x-real-ip''
      else req_remoteAddress req)"
  by (simp add: detector_ip_def js_or_def)

text \<open>
  C4. The logger resolves the address in the order CF-Connecting-IP, first entry of
  X-Forwarded-For, X-Real-IP, peer address, \<open>unknown\<close>. The detector does not read
  CF-Connecting-IP and has no \<open>unknown\<close>: for a request with CF-Connecting-IP 1.2.3.4 and
  X-Forwarded-For 5.6.7.8 the logger gives 1.2.3.4 and the detector 5.6.7.8; for a request
  with only X-Forwarded-For "9.9.9.9, 8.8.8.8" both give 9.9.9.9; for a request with no
  such header and no peer address the logger gives \<open>unknown\<close> and the detector
  \<open>undefined\<close>.
\<close>

theorem detector_ip_differs_from_getClientIP:
  "getClientIP cf_request = ''1.2.3.4''
   \<and> detector_ip cf_request = Some ''5.6.7.8''
   \<and> getClientIP xff_request = ''9.9.9.9''
   \<and> detector_ip xff_request = Some ''9.9.9.9''
   \<and> getClientIP bare_request = ''unknown''
   \<and> detector_ip bare_request = None"
  by (simp add: getClientIP_def detector_ip_def cf_request_def xff_request_def bare_request_def
      obj_get_def truthy_def js_or_def js_string_def first_entry_samples)

section \<open>Attack detector: one request\<close>

lemma matching_hits_Cons:
  assumes "matching_hits pathname cfg ip lastIndex (s # rest)"
  shows "pathname (req_url (sv_request s)) = Inr (parsed_path pathname (sv_request s))
       \<and> fst (matchPath cfg lastIndex (parsed_path pathname (sv_request s)))
       \<and> statusCodeSent (sv_response s) = cfg_statusCode cfg
       \<and> detector_ip (sv_request s) = ip
       \<and> matching_hits pathname cfg ip (lastIndex_after pathname cfg lastIndex (sv_request s)) rest"
  using assms
  by (cases "pathname (req_url (sv_request s))") (simp_all add: parsed_path_def lastIndex_after_def)

lemma attackDetector_matching:
  "matching_hits pathname cfg ip lastIndex (s # rest) \<Longrightarrow>
   attackDetector pathname cfg tr lastIndex (sv_request s) (sv_response s) (sv_now s)
     = record_hit cfg tr (sv_request s) ip (parsed_path pathname (sv_request s)) (sv_now s)"
  using matching_hits_Cons[of pathname cfg ip lastIndex s rest]
  by (simp add: attackDetector_def Let_def)

lemma record_hit_quiet:
  "int (length (cleanOldHits cfg (stored_hits tr ip) now)) + 1 < cfg_threshold cfg \<Longrightarrow>
   record_hit cfg tr req ip p now
     = quiet_outcome (tr(ip \<mapsto> cleanOldHits cfg (stored_hits tr ip) now @ [now]))"
  by (simp add: record_hit_def Let_def quiet_outcome_def)

lemma record_hit_breach:
  assumes "cfg_threshold cfg \<le> int (length (cleanOldHits cfg (stored_hits tr ip) now)) + 1"
    and "contained (cfg_onTrigger cfg
           (trigger_event_of req ip p (length (cleanOldHits cfg (stored_hits tr ip) now) + 1) now))"
  shows "eo_tracker (record_hit cfg tr req ip p now) = tr(ip := None)
       \<and> eo_triggered (record_hit cfg tr req ip p now)
           = [trigger_event_of req ip p (length (cleanOldHits cfg (stored_hits tr ip) now) + 1) now]
       \<and> eo_thrown (record_hit cfg tr req ip p now) = None
       \<and> eo_originalEnd (record_hit cfg tr req ip p now)"
proof -
  let ?ev = "trigger_event_of req ip p (length (cleanOldHits cfg (stored_hits tr ip) now) + 1) now"
  show ?thesis
  proof (cases "cfg_onTrigger cfg ?ev")
    case None
    with assms(1) show ?thesis
      by (simp add: record_hit_def Let_def trigger_event_of_def)
  next
    case (Some err)
    with assms(2) obtain m where "err = ThrownValue m"
      by (cases err) (simp_all add: contained_def)
    with Some assms(1) show ?thesis
      by (simp add: record_hit_def Let_def trigger_event_of_def error_message_def)
  qed
qed

lemma stored_after_record_hit:
  "set (stored_hits (eo_tracker (record_hit cfg tr req ip p now)) ip)
     \<subseteq> insert now (set (cleanOldHits cfg (stored_hits tr ip) now))"
  by (auto simp: record_hit_def Let_def stored_hits_def split: option.splits sum.splits)

lemma cleanOldHits_recent: "ts \<in> set (cleanOldHits cfg stored now) \<Longrightarrow> now - cfg_timeWindow cfg < ts"
  by (auto simp: cleanOldHits_def)

lemma length_cleanOldHits: "length (cleanOldHits cfg stored now) \<le> length stored"
  by (simp add: cleanOldHits_def)

lemma cleanOldHits_keeps: "\<forall>t \<in> set pre. now - t < cfg_timeWindow cfg \<Longrightarrow> cleanOldHits cfg pre now = pre"
  by (simp add: cleanOldHits_def)

lemma login_request_facts:
  "sample_pathname (req_url login_request) = Inr (Some ''/login'')"
  "detector_ip login_request = Some ''192.168.1.100''"
  "userAgent_of login_request = ''test-agent''"
  by (simp_all add: login_request_def sample_pathname_def detector_ip_def userAgent_of_def
      obj_get_def truthy_def js_or_def js_string_def first_entry_samples)

lemma failed_login_step:
  "attackDetector sample_pathname (login_cfg cb) tr lastIndex (sv_request (failed_login now))
      (sv_response (failed_login now)) (sv_now (failed_login now))
   = record_hit (login_cfg cb) tr login_request (Some ''192.168.1.100'') (Some ''/login'') now"
  by (simp add: attackDetector_def Let_def failed_login_def login_request_facts matchPath_def
      login_cfg_def statusCodeSent_def)

lemma failed_login_lastIndex:
  "lastIndex_after sample_pathname (login_cfg cb) lastIndex (sv_request (failed_login now))
     = lastIndex"
  by (simp add: lastIndex_after_def failed_login_def login_request_facts matchPath_def
      login_cfg_def)



text \<open>
  A request in absolute form whose pathname is the monitored one is a hit like any other:
  the hit is recorded under the address.
\<close>

lemma absolute_form_hit:
  "stored_hits (eo_tracker (attackDetector sample_pathname (login_cfg returns_normally) Map.empty 0
       absolute_request \<lparr>rs_writeHead = None, rs_statusCode = 401\<rparr> 7))
     (Some ''192.168.1.100'') = [7]"
proof -
  have "sample_pathname (req_url absolute_request) = Inr (Some ''/login'')"
    and "detector_ip absolute_request = Some ''192.168.1.100''"
    by (simp_all add: absolute_request_def sample_pathname_def detector_ip_def login_request_def
        obj_get_def truthy_def js_or_def first_entry_samples)
  then show ?thesis
    by (simp add: attackDetector_def Let_def matchPath_def statusCodeSent_def)
      (simp add: login_cfg_def record_hit_def Let_def stored_hits_def cleanOldHits_def)
qed

text \<open>
  A callback whose every result is contained cannot make the overridden \<open>end\<close> raise:
  for a request the platform gives a pathname for, the original \<open>end\<close> runs and \<open>next\<close>
  has been called.
\<close>

lemma end_override_contained:
  assumes "\<forall>ev. contained (cfg_onTrigger cfg ev)"
    and "pathname (req_url req) = Inr requestPath"
  shows "eo_thrown (attackDetector pathname cfg tr lastIndex req rs now) = None
       \<and> eo_originalEnd (attackDetector pathname cfg tr lastIndex req rs now)
       \<and> eo_next (attackDetector pathname cfg tr lastIndex req rs now) = 1"
proof -
  have "eo_thrown (record_hit cfg tr req ip p now) = None
      \<and> eo_originalEnd (record_hit cfg tr req ip p now)
      \<and> eo_next (record_hit cfg tr req ip p now) = 1" for ip p
  proof (cases "cfg_threshold cfg \<le> int (length (cleanOldHits cfg (stored_hits tr ip) now)) + 1")
    case True
    from record_hit_breach[OF True] assms(1) show ?thesis
      by (auto simp: record_hit_def Let_def split: option.splits sum.splits)
  next
    case False
    then show ?thesis by (simp add: record_hit_quiet quiet_outcome_def)
  qed
  with assms(2) show ?thesis by (simp add: attackDetector_def Let_def)
qed

text \<open>
  C8. A callback that throws \<open>null\<close> on the breach: the \<open>catch\<close> block reads
  \<open>err.message\<close>, which raises a \<open>TypeError\<close> that leaves the overridden \<open>end\<close>, and the
  original \<open>end\<close> does not run. Three failed logins from one address, the third reaching
  the threshold.
\<close>

theorem onTrigger_throwing_null_escapes:
  "map eo_thrown (snd (detector_run sample_pathname (login_cfg throws_null) Map.empty 0
        [failed_login 0, failed_login 1, failed_login 2]))
     = [None, None, Some (TypeError ''Cannot read properties of null'')]
   \<and> map eo_originalEnd (snd (detector_run sample_pathname (login_cfg throws_null) Map.empty 0
        [failed_login 0, failed_login 1, failed_login 2]))
     = [True, True, False]"
  by (simp add: failed_login_step failed_login_lastIndex Let_def,
      simp add: record_hit_def Let_def stored_hits_def cleanOldHits_def login_cfg_def
        throws_null_def error_message_def)

section \<open>Attack detector: hits one after the other\<close>

lemma detector_run_append:
  "detector_run pathname cfg tr lastIndex (xs @ ys) =
     (fst (detector_run pathname cfg (fst (detector_run pathname cfg tr lastIndex xs))
             (lastIndex_run pathname cfg lastIndex xs) ys),
      snd (detector_run pathname cfg tr lastIndex xs)
        @ snd (detector_run pathname cfg (fst (detector_run pathname cfg tr lastIndex xs))
             (lastIndex_run pathname cfg lastIndex xs) ys))"
  by (induction xs arbitrary: tr lastIndex) (simp_all add: Let_def)

lemma matching_hits_append:
  "matching_hits pathname cfg ip lastIndex (xs @ ys) =
     (matching_hits pathname cfg ip lastIndex xs
      \<and> matching_hits pathname cfg ip (lastIndex_run pathname cfg lastIndex xs) ys)"
proof (induction xs arbitrary: lastIndex)
  case Nil
  show ?case by simp
next
  case (Cons x xs)
  show ?case
    by (cases "pathname (req_url (sv_request x))") (simp_all add: Cons.IH lastIndex_after_def)
qed

lemma within_window_Cons: "within_window w (pre @ x # rest) \<Longrightarrow> \<forall>t \<in> set pre. x - t < w"
proof
  fix t assume ww: "within_window w (pre @ x # rest)" and "t \<in> set pre"
  then obtain i where i: "i < length pre" "pre ! i = t" by (auto simp: in_set_conv_nth)
  have "length pre < length (pre @ x # rest)" by simp
  with ww i(1) have "(pre @ x # rest) ! length pre - (pre @ x # rest) ! i < w"
    unfolding within_window_def by blast
  with i show "x - t < w" by (simp add: nth_append)
qed

lemma within_window_prefix: "within_window w (xs @ ys) \<Longrightarrow> within_window w xs"
  unfolding within_window_def
proof (intro allI impI)
  fix j i assume a: "\<forall>j<length (xs @ ys). \<forall>i<j. (xs @ ys) ! j - (xs @ ys) ! i < w"
    and j: "j < length xs" and i: "i < j"
  from j have "j < length (xs @ ys)" by simp
  with a i have "(xs @ ys) ! j - (xs @ ys) ! i < w" by blast
  with j i show "xs ! j - xs ! i < w" by (simp add: nth_append)
qed

lemma quiet_run:
  assumes "matching_hits pathname cfg ip lastIndex ss"
    and "int (length (stored_hits tr ip) + length ss) < cfg_threshold cfg"
    and "within_window (cfg_timeWindow cfg) (stored_hits tr ip @ map sv_now ss)"
  shows "map eo_triggered (snd (detector_run pathname cfg tr lastIndex ss))
           = replicate (length ss) []
       \<and> map eo_thrown (snd (detector_run pathname cfg tr lastIndex ss))
           = replicate (length ss) None
       \<and> stored_hits (fst (detector_run pathname cfg tr lastIndex ss)) ip
           = stored_hits tr ip @ map sv_now ss"
  using assms
proof (induction ss arbitrary: tr lastIndex)
  case Nil
  then show ?case by simp
next
  case (Cons s ss)
  let ?pre = "stored_hits tr ip"
  let ?tr' = "tr(ip \<mapsto> ?pre @ [sv_now s])"
  let ?li' = "lastIndex_after pathname cfg lastIndex (sv_request s)"
  from Cons.prems(3) have "\<forall>t \<in> set ?pre. sv_now s - t < cfg_timeWindow cfg"
    using within_window_Cons[of "cfg_timeWindow cfg" ?pre "sv_now s" "map sv_now ss"] by simp
  then have keep: "cleanOldHits cfg ?pre (sv_now s) = ?pre" by (rule cleanOldHits_keeps)
  note m = Cons.prems(1)
  have out: "attackDetector pathname cfg tr lastIndex (sv_request s) (sv_response s) (sv_now s)
      = quiet_outcome ?tr'"
    using record_hit_quiet[of cfg tr ip "sv_now s"] keep Cons.prems(2)
    by (simp add: attackDetector_matching[OF m])
  have st: "stored_hits ?tr' ip = ?pre @ [sv_now s]" by (simp add: stored_hits_def)
  have "map eo_triggered (snd (detector_run pathname cfg ?tr' ?li' ss)) = replicate (length ss) []
       \<and> map eo_thrown (snd (detector_run pathname cfg ?tr' ?li' ss)) = replicate (length ss) None
       \<and> stored_hits (fst (detector_run pathname cfg ?tr' ?li' ss)) ip
           = stored_hits ?tr' ip @ map sv_now ss"
  proof (rule Cons.IH)
    from matching_hits_Cons[OF m] show "matching_hits pathname cfg ip ?li' ss" by simp
    from Cons.prems(2) show "int (length (stored_hits ?tr' ip) + length ss) < cfg_threshold cfg"
      by (simp add: st)
    from Cons.prems(3) show "within_window (cfg_timeWindow cfg) (stored_hits ?tr' ip @ map sv_now ss)"
      by (simp add: st)
  qed
  then show ?case
    by (simp add: Let_def out st quiet_outcome_def)
qed

text \<open>
  The count when the callback's result is contained: from an address with no recorded
  hits, the hits before the threshold trigger nothing, the hit that reaches the threshold
  calls \<open>onTrigger\<close> once with \<open>hits\<close> equal to the threshold, and the address has no
  entry afterwards.
\<close>

lemma threshold_breach:
  assumes pos: "0 < cfg_threshold cfg"
    and idle: "stored_hits tr ip = []"
    and count: "int (length ss) + 1 = cfg_threshold cfg"
    and hits: "matching_hits pathname cfg ip lastIndex (ss @ [s])"
    and window: "within_window (cfg_timeWindow cfg) (map sv_now (ss @ [s]))"
    and safe: "\<forall>ev. contained (cfg_onTrigger cfg ev)"
  shows "map (map ev_hits \<circ> eo_triggered) (snd (detector_run pathname cfg tr lastIndex (ss @ [s])))
           = replicate (length ss) [] @ [[nat (cfg_threshold cfg)]]
       \<and> map eo_thrown (snd (detector_run pathname cfg tr lastIndex (ss @ [s])))
           = replicate (length ss + 1) None
       \<and> fst (detector_run pathname cfg tr lastIndex (ss @ [s])) ip = None"
proof -
  let ?li = "lastIndex_run pathname cfg lastIndex ss"
  from hits have earlier: "matching_hits pathname cfg ip lastIndex ss"
    and last: "matching_hits pathname cfg ip ?li [s]"
    by (simp_all add: matching_hits_append)
  have ww: "within_window (cfg_timeWindow cfg) (stored_hits tr ip @ map sv_now ss)"
    using within_window_prefix[of "cfg_timeWindow cfg" "map sv_now ss" "[sv_now s]"] window
    by (simp add: idle)
  have q: "map eo_triggered (snd (detector_run pathname cfg tr lastIndex ss))
           = replicate (length ss) []
       \<and> map eo_thrown (snd (detector_run pathname cfg tr lastIndex ss))
           = replicate (length ss) None
       \<and> stored_hits (fst (detector_run pathname cfg tr lastIndex ss)) ip
           = stored_hits tr ip @ map sv_now ss"
    using earlier count ww by (intro quiet_run) (simp_all add: idle)
  let ?tr = "fst (detector_run pathname cfg tr lastIndex ss)"
  from q idle have st: "stored_hits ?tr ip = map sv_now ss" by simp
  from window have "\<forall>t \<in> set (map sv_now ss). sv_now s - t < cfg_timeWindow cfg"
    using within_window_Cons[of "cfg_timeWindow cfg" "map sv_now ss" "sv_now s" "[]"] by simp
  then have keep: "cleanOldHits cfg (stored_hits ?tr ip) (sv_now s) = map sv_now ss"
    unfolding st by (rule cleanOldHits_keeps)
  have n: "length ss + 1 = nat (cfg_threshold cfg)" using count by simp
  let ?out = "record_hit cfg ?tr (sv_request s) ip (parsed_path pathname (sv_request s)) (sv_now s)"
  have b: "eo_tracker ?out = ?tr(ip := None)
       \<and> eo_triggered ?out
           = [trigger_event_of (sv_request s) ip (parsed_path pathname (sv_request s))
                (length (cleanOldHits cfg (stored_hits ?tr ip) (sv_now s)) + 1) (sv_now s)]
       \<and> eo_thrown ?out = None
       \<and> eo_originalEnd ?out"
    using count safe by (intro record_hit_breach) (simp_all add: keep)
  from b have tr0: "eo_tracker ?out ip = None" by simp
  from b have th: "eo_thrown ?out = None" by simp
  from b have "map ev_hits (eo_triggered ?out)
      = [length (cleanOldHits cfg (stored_hits ?tr ip) (sv_now s)) + 1]"
    by (simp add: trigger_event_of_def)
  then have ev: "map ev_hits (eo_triggered ?out) = [nat (cfg_threshold cfg)]"
    unfolding keep using n by simp
  have run: "detector_run pathname cfg tr lastIndex (ss @ [s])
      = (eo_tracker ?out, snd (detector_run pathname cfg tr lastIndex ss) @ [?out])"
    by (simp add: detector_run_append Let_def attackDetector_matching[OF last])
  from q have q1: "map (map ev_hits \<circ> eo_triggered) (snd (detector_run pathname cfg tr lastIndex ss))
      = replicate (length ss) []"
    by (simp add: map_replicate flip: map_map)
  from q have q2: "map eo_thrown (snd (detector_run pathname cfg tr lastIndex ss))
      = replicate (length ss) None"
    by simp
  show ?thesis
    unfolding run by (simp add: q1 q2 ev th tr0 replicate_append_same)
qed

text \<open>
  An expression with the g flag keeps its \<open>lastIndex\<close> from one request to the next: of
  three requests for \<open>/api/users\<close> answered 404, the second fails the test, and with
  threshold 2 the third is the one that triggers.
\<close>

lemma global_expression_alternates:
  "map (map ev_hits \<circ> eo_triggered) (snd (detector_run sample_pathname scan_cfg Map.empty 0
        [missing_page 0, missing_page 1, missing_page 2]))
     = [[], [], [2]]"
proof -
  have p: "sample_pathname (req_url (sv_request (missing_page t))) = Inr (Some ''/api/users'')"
    and ip: "detector_ip (sv_request (missing_page t)) = Some ''192.168.1.100''" for t
    by (simp_all add: missing_page_def sample_pathname_def detector_ip_def login_request_def
        obj_get_def truthy_def js_or_def first_entry_samples)
  have m0: "matchPath scan_cfg 0 (Some ''/api/users'') = (True, 10)"
    and m10: "matchPath scan_cfg 10 (Some ''/api/users'') = (False, 0)"
    by (simp_all add: matchPath_def scan_cfg_def api_global_test_def path_string_def)
  have st: "statusCodeSent (sv_response (missing_page t)) = cfg_statusCode scan_cfg" for t
    by (simp add: missing_page_def statusCodeSent_def scan_cfg_def)
  have now: "sv_now (missing_page t) = t" for t
    by (simp add: missing_page_def)
  show ?thesis
    by (simp add: Let_def attackDetector_def lastIndex_after_def p ip m0 m10 st now)
      (simp add: record_hit_def Let_def stored_hits_def cleanOldHits_def scan_cfg_def
        returns_normally_def)
qed

text \<open>
  C2. With a callback that throws \<open>null\<close>, the third failed login calls \<open>onTrigger\<close> with
  \<open>hits = 3\<close>, the exception leaves the override before \<open>hitTracker.delete(ip)\<close>, the
  three timestamps stay recorded, and a fourth failed login calls \<open>onTrigger\<close> with
  \<open>hits = 4\<close>.
\<close>

theorem hits_exceed_threshold_after_escape:
  "map (map ev_hits \<circ> eo_triggered) (snd (detector_run sample_pathname (login_cfg throws_null)
        Map.empty 0 [failed_login 0, failed_login 1, failed_login 2, failed_login 3]))
     = [[], [], [3], [4]]
   \<and> fst (detector_run sample_pathname (login_cfg throws_null) Map.empty 0
        [failed_login 0, failed_login 1, failed_login 2]) (Some ''192.168.1.100'')
     = Some [0, 1, 2]"
  by (simp add: failed_login_step failed_login_lastIndex Let_def,
      simp add: record_hit_def Let_def stored_hits_def cleanOldHits_def login_cfg_def
        throws_null_def error_message_def)

lemma three_spread_hits:
  assumes t: "cfg_threshold cfg = 3" and w: "cfg_timeWindow cfg = 1000"
    and m: "matching_hits pathname cfg ip lastIndex [s1, s2, s3]"
    and idle: "stored_hits tr ip = []"
    and spread: "1000 \<le> sv_now s3 - sv_now s1"
  shows "map eo_triggered (snd (detector_run pathname cfg tr lastIndex [s1, s2, s3])) = [[], [], []]"
proof -
  let ?p = "\<lambda>s. parsed_path pathname (sv_request s)"
  let ?li1 = "lastIndex_after pathname cfg lastIndex (sv_request s1)"
  let ?li2 = "lastIndex_after pathname cfg ?li1 (sv_request s2)"
  note m1 = m
  from matching_hits_Cons[OF m1] have m2: "matching_hits pathname cfg ip ?li1 [s2, s3]" by simp
  from matching_hits_Cons[OF m2] have m3: "matching_hits pathname cfg ip ?li2 [s3]" by simp
  let ?tr1 = "tr(ip \<mapsto> [sv_now s1])"
  have c1: "cleanOldHits cfg (stored_hits tr ip) (sv_now s1) = []"
    using idle by (simp add: cleanOldHits_def)
  have o1: "attackDetector pathname cfg tr lastIndex (sv_request s1) (sv_response s1) (sv_now s1)
      = quiet_outcome ?tr1"
    using record_hit_quiet[of cfg tr ip "sv_now s1" "sv_request s1" "?p s1"] c1 t
    by (simp add: attackDetector_matching[OF m1])
  let ?h2 = "cleanOldHits cfg [sv_now s1] (sv_now s2) @ [sv_now s2]"
  let ?tr2 = "tr(ip \<mapsto> ?h2)"
  have l2: "length (cleanOldHits cfg [sv_now s1] (sv_now s2)) \<le> 1"
    using length_cleanOldHits[of cfg "[sv_now s1]" "sv_now s2"] by simp
  have o2: "attackDetector pathname cfg ?tr1 ?li1 (sv_request s2) (sv_response s2) (sv_now s2)
      = quiet_outcome ?tr2"
    using record_hit_quiet[of cfg ?tr1 ip "sv_now s2" "sv_request s2" "?p s2"] l2 t
    by (simp add: attackDetector_matching[OF m2] stored_hits_def)
  have purged: "cleanOldHits cfg ?h2 (sv_now s3) = cleanOldHits cfg [sv_now s2] (sv_now s3)"
    using spread w by (simp add: cleanOldHits_def)
  have l3: "length (cleanOldHits cfg ?h2 (sv_now s3)) \<le> 1"
    unfolding purged using length_cleanOldHits[of cfg "[sv_now s2]" "sv_now s3"] by simp
  have o3: "attackDetector pathname cfg ?tr2 ?li2 (sv_request s3) (sv_response s3) (sv_now s3)
      = quiet_outcome (?tr2(ip \<mapsto> cleanOldHits cfg ?h2 (sv_now s3) @ [sv_now s3]))"
    using record_hit_quiet[of cfg ?tr2 ip "sv_now s3" "sv_request s3" "?p s3"] l3 t
    by (simp add: attackDetector_matching[OF m3] stored_hits_def)
  have e1: "eo_tracker (quiet_outcome ?tr1) = ?tr1" and e2: "eo_tracker (quiet_outcome ?tr2) = ?tr2"
    by (simp_all add: quiet_outcome_def)
  have q: "\<And>x. eo_triggered (quiet_outcome x) = []"
    by (simp add: quiet_outcome_def)
  show ?thesis
    by (simp add: Let_def o1 e1 o2 e2 o3 q)
qed

text \<open>
  C5, as stated, at a detector constructed with \<open>timeWindow = -1\<close> and threshold 2: after
  a failed login at time 0 the address has the timestamp 0 recorded, and 0 is older than
  \<open>now - timeWindow = 1\<close>.
\<close>

theorem negative_window_keeps_older_hit:
  "\<exists>cfg. createAttackDetector negative_window_options = Inr cfg
     \<and> stored_hits (eo_tracker (attackDetector sample_pathname cfg Map.empty 0 login_request
           \<lparr>rs_writeHead = None, rs_statusCode = 401\<rparr> 0)) (detector_ip login_request) = [0]
     \<and> \<not> (\<forall>ts \<in> set (stored_hits (eo_tracker (attackDetector sample_pathname cfg Map.empty 0
           login_request \<lparr>rs_writeHead = None, rs_statusCode = 401\<rparr> 0))
           (detector_ip login_request)).
           0 - cfg_timeWindow cfg \<le> ts)"
proof -
  let ?cfg = "\<lparr>cfg_path = ExactPath ''/login'', cfg_statusCode = 401, cfg_threshold = 2,
      cfg_timeWindow = - 1, cfg_onTrigger = returns_normally\<rparr>"
  have c: "createAttackDetector negative_window_options = Inr ?cfg"
    by (simp add: createAttackDetector_def negative_window_options_def path_falsy_def)
  have s: "stored_hits (eo_tracker (attackDetector sample_pathname ?cfg Map.empty 0 login_request
           \<lparr>rs_writeHead = None, rs_statusCode = 401\<rparr> 0)) (detector_ip login_request) = [0]"
    by (simp add: attackDetector_def Let_def login_request_facts matchPath_def statusCodeSent_def
        record_hit_def stored_hits_def cleanOldHits_def)
  show ?thesis
    by (rule exI[of _ ?cfg]) (simp add: c s)
qed

text \<open>
  C5, amended. For a detector whose time window is not negative, after every evaluation
  that reads an address's hit window (the platform gives a pathname, the path matches and
  the status is the watched one), no timestamp recorded for that address is older than
  \<open>now - timeWindow\<close>. With threshold 3 and window 1000 ms, three matching hits from one
  address with no recorded hits, the third 1000 ms or more after the first (so also when
  spread across 1500 ms), trigger nothing.
\<close>

theorem hit_window_recent_after_read:
  "(0 \<le> cfg_timeWindow cfg \<and> pathname (req_url req) = Inr requestPath
      \<and> fst (matchPath cfg lastIndex requestPath)
      \<and> statusCodeSent rs = cfg_statusCode cfg
    \<longrightarrow> (\<forall>ts \<in> set (stored_hits (eo_tracker
              (attackDetector pathname cfg tr lastIndex req rs now)) (detector_ip req)).
           now - cfg_timeWindow cfg \<le> ts))
   \<and> (cfg_threshold cfg = 3 \<and> cfg_timeWindow cfg = 1000
      \<and> matching_hits pathname cfg ip lastIndex [s1, s2, s3]
      \<and> stored_hits tr ip = [] \<and> 1000 \<le> sv_now s3 - sv_now s1
    \<longrightarrow> map eo_triggered (snd (detector_run pathname cfg tr lastIndex [s1, s2, s3]))
          = [[], [], []])"
proof (intro conjI impI ballI)
  fix ts
  assume a: "0 \<le> cfg_timeWindow cfg \<and> pathname (req_url req) = Inr requestPath
      \<and> fst (matchPath cfg lastIndex requestPath)
      \<and> statusCodeSent rs = cfg_statusCode cfg"
    and ts: "ts \<in> set (stored_hits (eo_tracker
              (attackDetector pathname cfg tr lastIndex req rs now)) (detector_ip req))"
  from a have eq: "attackDetector pathname cfg tr lastIndex req rs now
      = record_hit cfg tr req (detector_ip req) requestPath now"
    by (simp add: attackDetector_def Let_def)
  from ts stored_after_record_hit[of cfg tr req "detector_ip req" requestPath now]
  have "ts = now \<or> ts \<in> set (cleanOldHits cfg (stored_hits tr (detector_ip req)) now)"
    unfolding eq by blast
  then show "now - cfg_timeWindow cfg \<le> ts"
  proof
    assume "ts = now"
    with a show ?thesis by simp
  next
    assume "ts \<in> set (cleanOldHits cfg (stored_hits tr (detector_ip req)) now)"
    from cleanOldHits_recent[OF this] show ?thesis by simp
  qed
next
  assume "cfg_threshold cfg = 3 \<and> cfg_timeWindow cfg = 1000
      \<and> matching_hits pathname cfg ip lastIndex [s1, s2, s3]
      \<and> stored_hits tr ip = [] \<and> 1000 \<le> sv_now s3 - sv_now s1"
  then show "map eo_triggered (snd (detector_run pathname cfg tr lastIndex [s1, s2, s3]))
          = [[], [], []]"
    using three_spread_hits by blast
qed

theorem hit_window_recent_after_read_witness:
  "stored_hits (eo_tracker (attackDetector sample_pathname (login_cfg returns_normally)
       busy_tracker 0 login_request \<lparr>rs_writeHead = None, rs_statusCode = 401\<rparr> 5000))
       (detector_ip login_request)
     = [4500, 5000]
   \<and> list_all (\<lambda>ts. 5000 - cfg_timeWindow (login_cfg returns_normally) \<le> ts)
       (stored_hits (eo_tracker (attackDetector sample_pathname (login_cfg returns_normally)
          busy_tracker 0 login_request \<lparr>rs_writeHead = None, rs_statusCode = 401\<rparr> 5000))
          (detector_ip login_request))
   \<and> sv_now (failed_login 1500) - sv_now (failed_login 0) = 1500
   \<and> map eo_triggered (snd (detector_run sample_pathname (login_cfg returns_normally) Map.empty 0
        [failed_login 0, failed_login 700, failed_login 1500])) = [[], [], []]"
proof -
  let ?cfg = "login_cfg returns_normally"
  let ?rs = "\<lparr>rs_writeHead = None, rs_statusCode = 401\<rparr>"
  let ?ip = "Some ''192.168.1.100''"
  note inst1 = hit_window_recent_after_read[of ?cfg sample_pathname login_request
      "Some ''/login''" 0 ?rs busy_tracker 5000]
  note inst2 = hit_window_recent_after_read[of ?cfg sample_pathname _ _ 0 _ Map.empty _
      ?ip "failed_login 0" "failed_login 700" "failed_login 1500"]
  have h1: "0 \<le> cfg_timeWindow ?cfg \<and> sample_pathname (req_url login_request) = Inr (Some ''/login'')
      \<and> fst (matchPath ?cfg 0 (Some ''/login''))
      \<and> statusCodeSent ?rs = cfg_statusCode ?cfg"
    by (simp add: login_cfg_def login_request_facts matchPath_def statusCodeSent_def)
  have m: "matching_hits sample_pathname ?cfg ?ip 0
      [failed_login 0, failed_login 700, failed_login 1500]"
    by (simp add: failed_login_def login_request_facts matchPath_def
        login_cfg_def statusCodeSent_def)
  have h2: "cfg_threshold ?cfg = 3 \<and> cfg_timeWindow ?cfg = 1000
      \<and> matching_hits sample_pathname ?cfg ?ip 0
          [failed_login 0, failed_login 700, failed_login 1500]
      \<and> stored_hits Map.empty ?ip = []
      \<and> 1000 \<le> sv_now (failed_login 1500) - sv_now (failed_login 0)"
    using m by (simp add: login_cfg_def failed_login_def stored_hits_def)
  from inst1 h1 have recent: "\<forall>ts \<in> set (stored_hits (eo_tracker (attackDetector sample_pathname
        ?cfg busy_tracker 0 login_request ?rs 5000)) (detector_ip login_request)).
        5000 - cfg_timeWindow ?cfg \<le> ts"
    by blast
  from inst2 h2 have never: "map eo_triggered (snd (detector_run sample_pathname ?cfg Map.empty 0
        [failed_login 0, failed_login 700, failed_login 1500])) = [[], [], []]"
    by blast
  have stored: "stored_hits (eo_tracker (attackDetector sample_pathname ?cfg busy_tracker 0
      login_request ?rs 5000)) (detector_ip login_request) = [4500, 5000]"
    by (simp add: attackDetector_def Let_def login_request_facts matchPath_def statusCodeSent_def)
      (simp add: login_cfg_def record_hit_def stored_hits_def cleanOldHits_def busy_tracker_def)
  from recent never stored show ?thesis
    by (simp add: list_all_iff failed_login_def)
qed

section \<open>Proxy construction: errors and the stored descriptor\<close>

text \<open>The stages of a request, in order: the logger if there is one, the detectors in
  configured order, forwarding last.\<close>

lemma next_stage_plain:
  "next_stage False n i = map DetectorStage [i..<n] @ [ForwardStage]"
proof (induction "n - i" arbitrary: i)
  case 0
  then show ?case by (simp add: next_stage.simps[of False n i])
next
  case (Suc k)
  then have "i < n" and "k = n - Suc i" by simp_all
  with Suc.hyps(1)[of "Suc i"] show ?case
    by (simp add: next_stage.simps[of False n i] upt_conv_Cons)
qed

lemma next_stage_logged:
  "0 < i \<Longrightarrow> next_stage True n i = map DetectorStage [i - 1..<n] @ [ForwardStage]"
proof (induction "n - (i - 1)" arbitrary: i)
  case 0
  then show ?case by (simp add: next_stage.simps[of True n i])
next
  case (Suc k)
  then have lt: "i - 1 < n" and "k = n - (Suc i - 1)" by simp_all
  with Suc.hyps(1)[of "Suc i"] Suc.prems have "next_stage True n (Suc i) = map DetectorStage [i..<n] @ [ForwardStage]"
    by simp
  with lt Suc.prems show ?case
    by (simp add: next_stage.simps[of True n i] upt_conv_Cons)
qed

lemma server_stages_order:
  "server_stages srv =
     (if srv_logger srv \<noteq> None then [LoggerStage] else [])
       @ map DetectorStage [0..<length (srv_detectors srv)] @ [ForwardStage]"
proof (cases "srv_logger srv \<noteq> None")
  case True
  then show ?thesis
    using next_stage_logged[of 1 "length (srv_detectors srv)"]
    by (simp add: server_stages_def next_stage.simps[of True _ 0])
next
  case False
  then show ?thesis by (simp add: server_stages_def next_stage_plain)
qed

lemma createProxy_no_target:
  "\<not> truthy (po_target options) \<Longrightarrow>
   createProxy URL options = ([], Inl (Error ''Target URL is required''))"
  by (simp add: createProxy_def)

lemma createProxy_bad_target:
  "truthy (po_target options) \<Longrightarrow> URL (js_string (po_target options)) = None \<Longrightarrow>
   createProxy URL options = ([], Inl (Error ''Target must be a valid URL''))"
  by (simp add: createProxy_def)

lemma createProxy_bad_detector:
  "truthy (po_target options) \<Longrightarrow> URL (js_string (po_target options)) = Some targetUrl \<Longrightarrow>
   create_detectors (detector_list (po_attackDetector options)) = Inl e \<Longrightarrow>
   createProxy URL options = (logging_effects options, Inl e)"
  by (simp add: createProxy_def Let_def detector_list_def logging_effects_def)

lemma createProxy_ok:
  "truthy (po_target options) \<Longrightarrow> URL (js_string (po_target options)) = Some targetUrl \<Longrightarrow>
   create_detectors (detector_list (po_attackDetector options)) = Inr detectors \<Longrightarrow>
   createProxy URL options =
     (logging_effects options
        @ [CreateServer, Listen (case po_port options of None \<Rightarrow> 3000 | Some p \<Rightarrow> p)],
      Inr \<lparr>srv_targetParsed = parse_target targetUrl,
           srv_changeOrigin = (case po_changeOrigin options of None \<Rightarrow> False | Some b \<Rightarrow> b),
           srv_agent = (if tgt_isHttps (parse_target targetUrl) then httpsAgent else httpAgent),
           srv_logger = po_logger options,
           srv_detectors = detectors,
           srv_port = (case po_port options of None \<Rightarrow> 3000 | Some p \<Rightarrow> p)\<rparr>)"
  by (simp add: createProxy_def Let_def detector_list_def logging_effects_def)

lemma logging_effects_only:
  "CreateServer \<notin> set (logging_effects options) \<and> (\<forall>p. Listen p \<notin> set (logging_effects options))"
  by (simp add: logging_effects_def split: option.splits)

lemma createProxy_Inr:
  assumes "createProxy URL options = (effects, Inr srv)"
  shows "\<exists>targetUrl. truthy (po_target options)
          \<and> URL (js_string (po_target options)) = Some targetUrl
          \<and> srv_targetParsed srv = parse_target targetUrl"
proof (cases "truthy (po_target options)")
  case False
  from createProxy_no_target[OF this, of URL] assms show ?thesis by simp
next
  case True
  show ?thesis
  proof (cases "URL (js_string (po_target options))")
    case None
    from createProxy_bad_target[of options URL] True None assms show ?thesis by simp
  next
    case (Some targetUrl)
    show ?thesis
    proof (cases "create_detectors (detector_list (po_attackDetector options))")
      case (Inl e)
      from createProxy_bad_detector[of options URL targetUrl e] True Some Inl assms show ?thesis by simp
    next
      case (Inr detectors)
      from createProxy_ok[of options URL targetUrl detectors] True Some Inr assms
      have "srv_targetParsed srv = parse_target targetUrl"
        by auto
      with True Some show ?thesis by simp
    qed
  qed
qed

lemma createProxy_Inl:
  assumes "createProxy URL options = (effects, Inl e)"
  shows "CreateServer \<notin> set effects \<and> (\<forall>p. Listen p \<notin> set effects)"
proof (cases "truthy (po_target options)")
  case False
  from createProxy_no_target[OF this, of URL] assms show ?thesis by simp
next
  case True
  show ?thesis
  proof (cases "URL (js_string (po_target options))")
    case None
    from createProxy_bad_target[of options URL] True None assms show ?thesis by simp
  next
    case (Some targetUrl)
    show ?thesis
    proof (cases "create_detectors (detector_list (po_attackDetector options))")
      case (Inl e')
      from createProxy_bad_detector[of options URL targetUrl e'] True Some Inl assms
      have "effects = logging_effects options"
        by simp
      with logging_effects_only show ?thesis by simp
    next
      case (Inr detectors)
      from createProxy_ok[of options URL targetUrl detectors] True Some Inr assms show ?thesis by simp
    qed
  qed
qed

text \<open>
  C10. \<open>createProxy\<close> throws \<open>Target URL is required\<close> when the target is absent (or
  empty) and \<open>Target must be a valid URL\<close> when the platform's parser rejects the target
  string; whenever it throws, no server has been created and nothing listens. When it
  returns a server, the server holds the descriptor derived from the parsed target:
  hostname, the URL's port or else 443 for https and 80 otherwise, host, and whether the
  protocol is https. The request handler takes no parser: every request the server
  forwards is addressed with that stored descriptor.
\<close>

theorem createProxy_target:
  "(po_target options = None \<or> po_target options = Some []
      \<longrightarrow> createProxy URL options = ([], Inl (Error ''Target URL is required'')))
   \<and> (\<forall>target. po_target options = Some target \<and> target \<noteq> [] \<and> URL target = None
      \<longrightarrow> createProxy URL options = ([], Inl (Error ''Target must be a valid URL'')))
   \<and> (\<forall>effects e. createProxy URL options = (effects, Inl e)
      \<longrightarrow> CreateServer \<notin> set effects \<and> (\<forall>p. Listen p \<notin> set effects))
   \<and> (\<forall>effects srv. createProxy URL options = (effects, Inr srv)
      \<longrightarrow> (\<exists>target targetUrl. po_target options = Some target \<and> URL target = Some targetUrl
            \<and> tgt_hostname (srv_targetParsed srv) = url_hostname targetUrl
            \<and> tgt_port (srv_targetParsed srv) =
                (if url_port targetUrl \<noteq> [] then PortString (url_port targetUrl)
                 else if url_protocol targetUrl = ''https:'' then PortNumber 443
                 else PortNumber 80)
            \<and> tgt_host (srv_targetParsed srv) = url_host targetUrl
            \<and> tgt_isHttps (srv_targetParsed srv) = (url_protocol targetUrl = ''https:''))
          \<and> (\<forall>req res.
                opt_hostname (pr_options (ex_proxyReq (server_forward srv req res)))
                  = tgt_hostname (srv_targetParsed srv)
              \<and> opt_port (pr_options (ex_proxyReq (server_forward srv req res)))
                  = tgt_port (srv_targetParsed srv)
              \<and> pr_protocol (ex_proxyReq (server_forward srv req res))
                  = (if tgt_isHttps (srv_targetParsed srv) then https else http)))"
proof -
  have absent: "po_target options = None \<or> po_target options = Some []
      \<longrightarrow> createProxy URL options = ([], Inl (Error ''Target URL is required''))"
    by (auto simp: createProxy_no_target truthy_def)
  have malformed: "\<forall>target. po_target options = Some target \<and> target \<noteq> [] \<and> URL target = None
      \<longrightarrow> createProxy URL options = ([], Inl (Error ''Target must be a valid URL''))"
    by (auto simp: createProxy_bad_target truthy_def js_string_def)
  have closed: "\<forall>effects e. createProxy URL options = (effects, Inl e)
      \<longrightarrow> CreateServer \<notin> set effects \<and> (\<forall>p. Listen p \<notin> set effects)"
    using createProxy_Inl by blast
  have derived: "\<exists>target targetUrl. po_target options = Some target \<and> URL target = Some targetUrl
            \<and> tgt_hostname (srv_targetParsed srv) = url_hostname targetUrl
            \<and> tgt_port (srv_targetParsed srv) =
                (if url_port targetUrl \<noteq> [] then PortString (url_port targetUrl)
                 else if url_protocol targetUrl = ''https:'' then PortNumber 443
                 else PortNumber 80)
            \<and> tgt_host (srv_targetParsed srv) = url_host targetUrl
            \<and> tgt_isHttps (srv_targetParsed srv) = (url_protocol targetUrl = ''https:'')"
    if ok: "createProxy URL options = (effects, Inr srv)" for effects srv
  proof -
    from createProxy_Inr[OF ok] obtain targetUrl where
      t: "truthy (po_target options)" and u: "URL (js_string (po_target options)) = Some targetUrl"
      and p: "srv_targetParsed srv = parse_target targetUrl"
      by blast
    from t obtain target where tg: "po_target options = Some target"
      by (cases "po_target options") (simp_all add: truthy_def)
    from u tg have "URL target = Some targetUrl" by (simp add: js_string_def)
    with tg p show ?thesis by (simp add: parse_target_def Let_def)
  qed
  have reused: "opt_hostname (pr_options (ex_proxyReq (server_forward srv req res)))
                  = tgt_hostname (srv_targetParsed srv)
              \<and> opt_port (pr_options (ex_proxyReq (server_forward srv req res)))
                  = tgt_port (srv_targetParsed srv)
              \<and> pr_protocol (ex_proxyReq (server_forward srv req res))
                  = (if tgt_isHttps (srv_targetParsed srv) then https else http)"
    for srv req res
    by (simp add: server_forward_def forwardRequest_def forwardRequest_options_def Let_def)
  from absent malformed closed derived reused show ?thesis by blast
qed

theorem createProxy_target_witness:
  "createProxy sample_URL (sample_options None) = ([], Inl (Error ''Target URL is required''))
   \<and> createProxy sample_URL (sample_options (Some ''not a url''))
       = ([], Inl (Error ''Target must be a valid URL''))
   \<and> (\<exists>srv. createProxy sample_URL (sample_options (Some ''https://jsonplaceholder.typicode.com''))
          = ([CreateServer, Listen 3000], Inr srv)
        \<and> srv_targetParsed srv =
            \<lparr>tgt_hostname = ''jsonplaceholder.typicode.com'', tgt_port = PortNumber 443,
             tgt_host = ''jsonplaceholder.typicode.com'', tgt_isHttps = True\<rparr>)
   \<and> (\<exists>srv. createProxy sample_URL (sample_options (Some ''http://localhost:9000''))
          = ([CreateServer, Listen 3000], Inr srv)
        \<and> tgt_port (srv_targetParsed srv) = PortString ''9000''
        \<and> opt_port (pr_options (ex_proxyReq (server_forward srv sample_request fresh_response)))
            = PortString ''9000'')"
proof -
  have absent: "createProxy sample_URL (sample_options None)
      = ([], Inl (Error ''Target URL is required''))"
    using createProxy_target[of "sample_options None" sample_URL]
    by (simp add: sample_options_def)
  have "sample_URL ''not a url'' = None"
    by (simp add: sample_URL_def)
  then have malformed: "createProxy sample_URL (sample_options (Some ''not a url''))
      = ([], Inl (Error ''Target must be a valid URL''))"
    using createProxy_target[of "sample_options (Some ''not a url'')" sample_URL]
    by (simp add: sample_options_def)
  have secure: "\<exists>srv. createProxy sample_URL (sample_options (Some ''https://jsonplaceholder.typicode.com''))
          = ([CreateServer, Listen 3000], Inr srv)
        \<and> srv_targetParsed srv =
            \<lparr>tgt_hostname = ''jsonplaceholder.typicode.com'', tgt_port = PortNumber 443,
             tgt_host = ''jsonplaceholder.typicode.com'', tgt_isHttps = True\<rparr>"
    by (simp add: createProxy_def sample_options_def sample_URL_def truthy_def js_string_def
        Let_def parse_target_def detector_list_def logging_effects_def)
  obtain srv where run: "createProxy sample_URL (sample_options (Some ''http://localhost:9000''))
          = ([CreateServer, Listen 3000], Inr srv)"
    by (simp add: createProxy_def sample_options_def sample_URL_def truthy_def js_string_def
        Let_def parse_target_def detector_list_def logging_effects_def)
  from createProxy_target[of "sample_options (Some ''http://localhost:9000'')" sample_URL] run
  obtain target targetUrl where
    t: "po_target (sample_options (Some ''http://localhost:9000'')) = Some target"
    and u: "sample_URL target = Some targetUrl"
    and pt: "tgt_port (srv_targetParsed srv) =
                (if url_port targetUrl \<noteq> [] then PortString (url_port targetUrl)
                 else if url_protocol targetUrl = ''https:'' then PortNumber 443
                 else PortNumber 80)"
    and fw: "opt_port (pr_options (ex_proxyReq (server_forward srv sample_request fresh_response)))
                  = tgt_port (srv_targetParsed srv)"
    by blast
  from t have "target = ''http://localhost:9000''" by (simp add: sample_options_def)
  with u have "url_port targetUrl = ''9000''" by (auto simp: sample_URL_def)
  with pt have port: "tgt_port (srv_targetParsed srv) = PortString ''9000''" by simp
  with fw run have "\<exists>srv. createProxy sample_URL (sample_options (Some ''http://localhost:9000''))
          = ([CreateServer, Listen 3000], Inr srv)
        \<and> tgt_port (srv_targetParsed srv) = PortString ''9000''
        \<and> opt_port (pr_options (ex_proxyReq (server_forward srv sample_request fresh_response)))
            = PortString ''9000''"
    by auto
  with absent malformed secure show ?thesis by blast
qed

end
